theory Spec2Isabelle
  imports
    Main
    "HOL-Library.AList"
    "HOL-Library.Char_ord"
    "HOL-Library.List_Lexorder"
    "HOL-Library.Product_Lexorder"
begin

section \<open>Data model\<close>

text \<open>
  The notebook \<^verbatim>\<open>EMP-metabo_CMN_microbial_metabolites.ipynb\<close> works on pandas data
  frames. A cell of a frame is missing, a string or a whole number; a row is the list of
  its named cells and a table is the list of its rows, in order (the columns of a frame
  are those of its rows).
\<close>

datatype cell = NaN | Str string | Num int

type_synonym row = "(string \<times> cell) list"

type_synonym table = "row list"

text \<open>Failures of the Python code are values: indexing an absent column, adding a string
  to a number, assigning a column of the wrong length, the \<^verbatim>\<open>.str\<close> accessor on a column
  of numbers, a cell of the notebook that Python refuses to compile.\<close>

datatype error = KeyError string | TypeError | ValueError | AttributeError | IndentationError

definition ebind :: "error + 'a \<Rightarrow> ('a \<Rightarrow> error + 'b) \<Rightarrow> error + 'b" where
  "ebind m f = (case m of Inl e \<Rightarrow> Inl e | Inr x \<Rightarrow> f x)"

fun mapM :: "('a \<Rightarrow> error + 'b) \<Rightarrow> 'a list \<Rightarrow> error + 'b list" where
  "mapM f [] = Inr []"
| "mapM f (x # xs) =
     (case f x of
        Inl e \<Rightarrow> Inl e
      | Inr y \<Rightarrow> (case mapM f xs of Inl e \<Rightarrow> Inl e | Inr ys \<Rightarrow> Inr (y # ys)))"

text \<open>\<^verbatim>\<open>row[c]\<close>\<close>

definition getcol :: "row \<Rightarrow> string \<Rightarrow> error + cell" where
  "getcol r c = (case map_of r c of None \<Rightarrow> Inl (KeyError c) | Some v \<Rightarrow> Inr v)"

text \<open>\<^verbatim>\<open>table[c]\<close>\<close>

definition column_of :: "string \<Rightarrow> table \<Rightarrow> error + cell list" where
  "column_of c t = mapM (\<lambda>r. getcol r c) t"

text \<open>
  pandas stores every column with a type, and the notebook depends on it in four places.
  The type of a column that is read from a file or assigned from a Python list is
  inferred from its values, and the model reads it off the cells in the same way: a
  column that holds a string is an object column; a column of whole numbers is an
  \<^verbatim>\<open>int64\<close> column; a column of numbers and missing values, or of missing values only,
  is a \<^verbatim>\<open>float64\<close> column, in which \<open>Num i\<close> stands for the float of value \<open>i\<close>. A
  column without rows is an object column.

  \<^item> The \<^verbatim>\<open>.str\<close> accessor exists on object columns only (identifier normalizer).
  \<^item> \<^verbatim>\<open>str\<close> of a float prints a decimal point (reference aggregator).
  \<^item> A list of whole numbers and \<^verbatim>\<open>np.nan\<close> becomes a \<^verbatim>\<open>float64\<close> column: every
    number is rounded to the nearest float (network propagator).
  \<^item> \<^verbatim>\<open>x is not np.nan\<close> compares identities. A missing cell of an object column is the
    object \<^verbatim>\<open>np.nan\<close> itself, so the test is false on it and true on every other cell;
    a value read from a \<^verbatim>\<open>float64\<close> column is a new float each time, so the test is
    true on every cell of such a column, missing or not (network propagator). The
    columns that a merge adds are object columns whatever they hold; the tier loop and
    the summary loop read no others.

  The test for the cluster sentinel, \<^verbatim>\<open>x is not -1\<close>, compares identities as well. The
  cluster ids are the whole numbers of an \<^verbatim>\<open>int64\<close> column in a frame that also holds
  string columns (the identifiers), so \<^verbatim>\<open>iterrows\<close> yields them as Python integers, and
  CPython keeps one object for each small integer: the test is false on \<open>-1\<close> and true
  on every other cell. A whole number is a 64-bit integer, as the reader gives it.
\<close>

fun is_str :: "cell \<Rightarrow> bool" where
  "is_str (Str s) = True"
| "is_str NaN = False"
| "is_str (Num i) = False"

definition object_dtype :: "cell list \<Rightarrow> bool" where
  "object_dtype vs = (vs = [] \<or> (\<exists>v\<in>set vs. is_str v))"

definition float_dtype :: "cell list \<Rightarrow> bool" where
  "float_dtype vs = (\<not> object_dtype vs \<and> NaN \<in> set vs)"

text \<open>\<^verbatim>\<open>float(i)\<close>: the float nearest to a whole number, a tie going to the even
  mantissa. A float has 53 bits of mantissa, so the numbers up to \<open>2\<^sup>5\<^sup>3\<close> in magnitude
  are floats themselves.\<close>

function bit_length :: "int \<Rightarrow> int" where
  "bit_length n = (if n \<le> 0 then 0 else 1 + bit_length (n div 2))"
  by pat_completeness auto
termination
  by (relation "measure nat") auto

declare bit_length.simps [simp del]

function pow2 :: "int \<Rightarrow> int" where
  "pow2 e = (if e \<le> 0 then 1 else 2 * pow2 (e - 1))"
  by pat_completeness auto
termination
  by (relation "measure nat") auto

declare pow2.simps [simp del]

definition round_double :: "int \<Rightarrow> int" where
  "round_double i =
     (let a = \<bar>i\<bar>; e = bit_length a - 53
      in if e \<le> 0 then i
         else
           let q = a div pow2 e; r = a mod pow2 e; h = pow2 (e - 1);
               q' = (if h < r \<or> (r = h \<and> q mod 2 = 1) then q + 1 else q)
           in if i < 0 then - (q' * pow2 e) else q' * pow2 e)"

definition to_double :: "cell \<Rightarrow> cell" where
  "to_double v = (case v of Num i \<Rightarrow> Num (round_double i) | _ \<Rightarrow> v)"

text \<open>The column that pandas makes of a Python list of values: the numbers of a list
  that holds \<^verbatim>\<open>np.nan\<close> and no string become floats.\<close>

definition as_column :: "cell list \<Rightarrow> cell list" where
  "as_column vs = (if float_dtype vs then map to_double vs else vs)"

text \<open>\<^verbatim>\<open>table[c] = values\<close>: an existing column is overwritten in place, a new one is
  appended; pandas refuses a list whose length is not the number of rows.\<close>

definition set_column :: "string \<Rightarrow> cell list \<Rightarrow> table \<Rightarrow> error + table" where
  "set_column c vs t =
     (if length vs \<noteq> length t then Inl ValueError
      else Inr (map (\<lambda>(r, v). AList.update c v r) (zip t vs)))"

text \<open>\<^verbatim>\<open>table.rename(columns = dict((i, prefix + i) for i in table.columns))\<close>\<close>

definition rename_prefix :: "string \<Rightarrow> table \<Rightarrow> table" where
  "rename_prefix prefix t = map (map (\<lambda>(k, v). (prefix @ k, v))) t"

section \<open>Python strings\<close>

text \<open>\<^verbatim>\<open>s.split(d)\<close> for a one-character separator.\<close>

fun split_on :: "char \<Rightarrow> string \<Rightarrow> string list" where
  "split_on d [] = [[]]"
| "split_on d (c # cs) =
     (if c = d then [] # split_on d cs
      else (case split_on d cs of [] \<Rightarrow> [[c]] | x # xs \<Rightarrow> (c # x) # xs))"

text \<open>\<^verbatim>\<open>sep.join(xs)\<close>\<close>

fun join :: "string \<Rightarrow> string list \<Rightarrow> string" where
  "join sep [] = []"
| "join sep [x] = x"
| "join sep (x # y # ys) = x @ sep @ join sep (y # ys)"

text \<open>
  \<^verbatim>\<open>str(v)\<close>. A missing value prints as \<^verbatim>\<open>nan\<close> and a whole number in decimal. A
  float prints as the shortest digits that give the float back when they are read: a
  whole value of at most sixteen digits as its digits and \<^verbatim>\<open>.0\<close>, a longer one with an
  exponent. (This is Python 3. The Python 2.7 that the metadata of the notebook names
  prints twelve significant digits; the two agree on the whole values of at most twelve
  digits.)
\<close>

function int_digits :: "int \<Rightarrow> string" where
  "int_digits n =
     (if n < 10 then [char_of (48 + n)]
      else int_digits (n div 10) @ [char_of (48 + n mod 10)])"
  by pat_completeness auto
termination
  by (relation "measure nat") auto

declare int_digits.simps [simp del]

definition py_str_int :: "int \<Rightarrow> string" where
  "py_str_int i = (if i < 0 then CHR ''-'' # int_digits (- i) else int_digits i)"

function digit_count :: "int \<Rightarrow> int" where
  "digit_count n = (if n < 10 then 1 else 1 + digit_count (n div 10))"
  by pat_completeness auto
termination
  by (relation "measure nat") auto

declare digit_count.simps [simp del]

function pow10 :: "int \<Rightarrow> int" where
  "pow10 e = (if e \<le> 0 then 1 else 10 * pow10 (e - 1))"
  by pat_completeness auto
termination
  by (relation "measure nat") auto

declare pow10.simps [simp del]

text \<open>The number of fewest significant digits that is read as the float \<open>w\<close> of
  \<open>len\<close> digits: of the numbers of \<open>n\<close> significant digits just below and just above
  \<open>w\<close>, for the first \<open>n\<close> of the list for which one of them is read as \<open>w\<close>, the one
  nearer to \<open>w\<close>.\<close>

fun shortest_digits :: "int \<Rightarrow> int \<Rightarrow> int list \<Rightarrow> int" where
  "shortest_digits w len [] = w"
| "shortest_digits w len (n # ns) =
     (let u = pow10 (len - n); lo = (w div u) * u; hi = lo + u
      in if round_double lo = w \<and> round_double hi = w then
           (if w - lo < hi - w then lo
            else if hi - w < w - lo then hi
            else if (lo div u) mod 2 = 0 then lo else hi)
         else if round_double lo = w then lo
         else if round_double hi = w then hi
         else shortest_digits w len ns)"

definition float_digits :: "int \<Rightarrow> string" where
  "float_digits a =
     (let n = digit_count a
      in if n \<le> 16 then int_digits a @ ''.0''
         else
           let m = shortest_digits a n [1, 2, 3, 4, 5, 6, 7, 8, 9, 10, 11, 12, 13, 14, 15, 16, 17];
               ds = rev (dropWhile (\<lambda>c. c = CHR ''0'') (rev (int_digits m)))
           in (case ds of
                 [] \<Rightarrow> []
               | d # frac \<Rightarrow> d # (if frac = [] then [] else CHR ''.'' # frac))
              @ ''e+'' @ int_digits (digit_count m - 1))"

definition py_str_float :: "int \<Rightarrow> string" where
  "py_str_float i = (if i < 0 then CHR ''-'' # float_digits (- i) else float_digits i)"

text \<open>\<open>py_str float v\<close> is \<^verbatim>\<open>str(v)\<close> for a cell \<open>v\<close> of a column that is a
  \<^verbatim>\<open>float64\<close> column or not.\<close>

definition py_str :: "bool \<Rightarrow> cell \<Rightarrow> string" where
  "py_str float v =
     (case v of
        NaN \<Rightarrow> ''nan''
      | Str s \<Rightarrow> s
      | Num i \<Rightarrow> (if float then py_str_float (round_double i) else py_str_int i))"

section \<open>Identifier normalizer\<close>

text \<open>
  \<^verbatim>\<open>table[column].str.split('-').str[0]\<close>, on one cell: the \<^verbatim>\<open>.str\<close> accessor maps
  every entry that is not a string to missing, and \<^verbatim>\<open>.str[0]\<close> gives missing on an
  empty list.
\<close>

definition no_stereo :: "cell \<Rightarrow> cell" where
  "no_stereo v =
     (case v of
        Str s \<Rightarrow> (case split_on CHR ''-'' s of [] \<Rightarrow> NaN | x # xs \<Rightarrow> Str x)
      | _ \<Rightarrow> NaN)"

text \<open>\<^verbatim>\<open>def _prepare_inchikey(table, column)\<close>. On a column that is not an object column
  (one read from a file with no string in it, so a column that is missing throughout)
  pandas raises \<^verbatim>\<open>AttributeError\<close> at \<^verbatim>\<open>.str\<close>.\<close>

definition prepare_inchikey :: "string \<Rightarrow> table \<Rightarrow> error + table" where
  "prepare_inchikey column t =
     ebind (column_of column t) (\<lambda>vs.
       if object_dtype vs then set_column (column @ ''_no_stereo'') (map no_stereo vs) t
       else Inl AttributeError)"

section \<open>Reference aggregator and evidence joiner\<close>

text \<open>
  \<^verbatim>\<open>table.groupby(key)[fields].agg(lambda values: '|'.join([str(v) for v in values])).reset_index()\<close>.
  pandas forms one group for each key that is not missing, in sorted key order (numbers
  before strings, strings compared character by character), keeps the rows of a group in
  table order, and \<^verbatim>\<open>reset_index\<close> makes the key the first column. The values of a
  field are floats when the field is a \<^verbatim>\<open>float64\<close> column of the reference.
\<close>

definition key_rank :: "cell \<Rightarrow> nat \<times> int \<times> string" where
  "key_rank k = (case k of Num i \<Rightarrow> (0, i, []) | Str s \<Rightarrow> (1, 0, s) | NaN \<Rightarrow> (2, 0, []))"

definition group_keys :: "cell list \<Rightarrow> cell list" where
  "group_keys ks = sort_key key_rank (remdups (filter (\<lambda>k. k \<noteq> NaN) ks))"

definition group_rows :: "string \<Rightarrow> cell \<Rightarrow> table \<Rightarrow> table" where
  "group_rows key k t = filter (\<lambda>r. map_of r key = Some k) t"

definition cell_at :: "string \<Rightarrow> row \<Rightarrow> cell" where
  "cell_at f r = (case map_of r f of None \<Rightarrow> NaN | Some v \<Rightarrow> v)"

definition agg_row :: "string \<Rightarrow> string list \<Rightarrow> table \<Rightarrow> cell \<Rightarrow> row" where
  "agg_row key fields t k =
     (key, k) #
     map (\<lambda>f. (f, Str (join ''|''
            (map (py_str (float_dtype (map (cell_at f) t))) (map (cell_at f) (group_rows key k t))))))
       fields"

definition groupby_agg :: "string \<Rightarrow> string list \<Rightarrow> table \<Rightarrow> error + table" where
  "groupby_agg key fields t =
     ebind (column_of key t) (\<lambda>ks.
     ebind (mapM (\<lambda>f. column_of f t) fields) (\<lambda>cols.
       Inr (map (agg_row key fields t) (group_keys ks))))"

text \<open>
  \<^verbatim>\<open>pd.merge(left, right, left_on=..., right_on=..., how='left')\<close>: every left row, in
  order, once for each right row with an equal key (missing keys match each other), or
  once with the right columns missing when there is none. A column name on both sides
  gets the suffix \<^verbatim>\<open>_x\<close> on the left and \<^verbatim>\<open>_y\<close> on the right. \<open>rcols\<close> are the columns
  of the right frame.
\<close>

definition suffix_overlap :: "string list \<Rightarrow> string \<Rightarrow> row \<Rightarrow> row" where
  "suffix_overlap other sfx r = map (\<lambda>(k, v). (if k \<in> set other then k @ sfx else k, v)) r"

definition merge_row :: "string list \<Rightarrow> table \<Rightarrow> string \<Rightarrow> string \<Rightarrow> row \<Rightarrow> table" where
  "merge_row rcols right left_on right_on l =
     (let matches = filter (\<lambda>r. map_of r right_on = map_of l left_on) right;
          l' = suffix_overlap rcols ''_x'' l
      in if matches = []
         then [l' @ suffix_overlap (map fst l) ''_y'' (map (\<lambda>c. (c, NaN)) rcols)]
         else map (\<lambda>r. l' @ suffix_overlap (map fst l) ''_y'' r) matches)"

definition merge_left :: "table \<Rightarrow> string list \<Rightarrow> table \<Rightarrow> string \<Rightarrow> string \<Rightarrow> error + table" where
  "merge_left left rcols right left_on right_on =
     ebind (column_of left_on left) (\<lambda>lk.
     ebind (column_of right_on right) (\<lambda>rk.
       Inr (concat (map (merge_row rcols right left_on right_on) left))))"

text \<open>\<^verbatim>\<open>def _aggregate_npatlas(table, npatlas, column, prefix)\<close>; \<open>npatlas2\<close> is the
  aggregated reference with its columns renamed.\<close>

definition npatlas_key :: string where
  "npatlas_key = ''NPA_compound_inchikey_no_stereo''"

definition npatlas_fields :: "string list" where
  "npatlas_fields =
     [''NPA_npaid'', ''NPA_compound_id'', ''NPA_compound_names'', ''NPA_origin_type'',
      ''NPA_genus'', ''NPA_origin_species'', ''NPA_mibig_ids'']"

definition npatlas2 :: "string \<Rightarrow> table \<Rightarrow> error + table" where
  "npatlas2 prefix npatlas =
     ebind (groupby_agg npatlas_key npatlas_fields npatlas) (\<lambda>g. Inr (rename_prefix prefix g))"

definition aggregate_npatlas :: "table \<Rightarrow> table \<Rightarrow> string \<Rightarrow> string \<Rightarrow> error + table" where
  "aggregate_npatlas t npatlas column prefix =
     ebind (npatlas2 prefix npatlas) (\<lambda>n2.
       merge_left t (map (\<lambda>c. prefix @ c) (npatlas_key # npatlas_fields)) n2
         (column @ ''_no_stereo'') (prefix @ npatlas_key))"

text \<open>\<^verbatim>\<open>def _aggregate_mibig(table, mibig, column, prefix)\<close>\<close>

definition mibig_key :: string where
  "mibig_key = ''MIBIG_no_stereo_inchikey''"

definition mibig_fields :: "string list" where
  "mibig_fields =
     [''MIBIG_mibig_accession'', ''MIBIG_organism_name'', ''MIBIG_compound_name'',
      ''MIBIG_ncbi_tax_id'']"

definition mibig2 :: "string \<Rightarrow> table \<Rightarrow> error + table" where
  "mibig2 prefix mibig =
     ebind (groupby_agg mibig_key mibig_fields mibig) (\<lambda>g. Inr (rename_prefix prefix g))"

definition aggregate_mibig :: "table \<Rightarrow> table \<Rightarrow> string \<Rightarrow> string \<Rightarrow> error + table" where
  "aggregate_mibig t mibig column prefix =
     ebind (mibig2 prefix mibig) (\<lambda>m2.
       merge_left t (map (\<lambda>c. prefix @ c) (mibig_key # mibig_fields)) m2
         (column @ ''_no_stereo'') (prefix @ mibig_key))"

text \<open>The input columns of the five annotation tools.\<close>

definition gnps_lib :: string where "gnps_lib = ''GNPS_LIB_Consol_InChIKey''"

definition gnps_liba :: string where "gnps_liba = ''GNPS_LIBA_Consol_InChIKey''"

definition derep :: string where "derep = ''DEREP_Consol_InChIKey''"

definition derepplus :: string where "derepplus = ''DEREP+_Consol_InChIKey''"

definition csi :: string where "csi = ''CSI_InChIkey2D''"

text \<open>The five joins against NPAtlas and the five against MIBIG, each on the result of
  the one before.\<close>

definition join_npatlas :: "table \<Rightarrow> table \<Rightarrow> error + table" where
  "join_npatlas features npatlas =
     ebind (aggregate_npatlas features npatlas gnps_lib ''GNPS_LIB_'') (\<lambda>t1.
     ebind (aggregate_npatlas t1 npatlas gnps_liba ''GNPS_LIBA_'') (\<lambda>t2.
     ebind (aggregate_npatlas t2 npatlas derep ''DEREP_'') (\<lambda>t3.
     ebind (aggregate_npatlas t3 npatlas derepplus ''DEREP+_'') (\<lambda>t4.
       aggregate_npatlas t4 npatlas csi ''CSI_''))))"

definition join_mibig :: "table \<Rightarrow> table \<Rightarrow> error + table" where
  "join_mibig merged mibig =
     ebind (aggregate_mibig merged mibig gnps_lib ''GNPS_LIB_'') (\<lambda>t1.
     ebind (aggregate_mibig t1 mibig gnps_liba ''GNPS_LIBA_'') (\<lambda>t2.
     ebind (aggregate_mibig t2 mibig derep ''DEREP_'') (\<lambda>t3.
     ebind (aggregate_mibig t3 mibig derepplus ''DEREP+_'') (\<lambda>t4.
       aggregate_mibig t4 mibig csi ''CSI_''))))"

section \<open>Confidence tiers\<close>

text \<open>
  One \<^verbatim>\<open>if ... elif ... else\<close> chain of the tier loop: the columns are read in order,
  the first one that is not missing gives \<^verbatim>\<open>'YES'\<close> (the later ones are not read), and
  \<^verbatim>\<open>np.nan\<close> is appended when all are missing.
\<close>

fun yes_if_any :: "row \<Rightarrow> string list \<Rightarrow> error + cell" where
  "yes_if_any r [] = Inr NaN"
| "yes_if_any r (c # cs) =
     (case getcol r c of
        Inl e \<Rightarrow> Inl e
      | Inr v \<Rightarrow> if v \<noteq> NaN then Inr (Str ''YES'') else yes_if_any r cs)"

definition level_2_evidence :: "string list" where
  "level_2_evidence =
     [''GNPS_LIB_NPA_compound_id'', ''GNPS_LIBA_NPA_compound_id'',
      ''GNPS_LIB_MIBIG_mibig_accession'', ''GNPS_LIBA_MIBIG_mibig_accession'']"

definition level_3_evidence :: "string list" where
  "level_3_evidence =
     [''DEREP_NPA_compound_id'', ''DEREP+_NPA_compound_id'',
      ''DEREP_MIBIG_mibig_accession'', ''DEREP+_MIBIG_mibig_accession'']"

definition level_4_evidence :: "string list" where
  "level_4_evidence = [''CSI_NPA_compound_id'', ''CSI_MIBIG_mibig_accession'']"

definition level_2_3_evidence :: "string list" where
  "level_2_3_evidence =
     [''GNPS_LIB_NPA_compound_id'', ''GNPS_LIBA_NPA_compound_id'',
      ''DEREP_NPA_compound_id'', ''DEREP+_NPA_compound_id'',
      ''GNPS_LIB_MIBIG_mibig_accession'', ''GNPS_LIBA_MIBIG_mibig_accession'',
      ''DEREP_MIBIG_mibig_accession'', ''DEREP+_MIBIG_mibig_accession'']"

definition level_2_3_4_evidence :: "string list" where
  "level_2_3_4_evidence =
     [''GNPS_LIB_NPA_compound_id'', ''GNPS_LIBA_NPA_compound_id'',
      ''DEREP_NPA_compound_id'', ''DEREP+_NPA_compound_id'', ''CSI_NPA_compound_id'',
      ''GNPS_LIB_MIBIG_mibig_accession'', ''GNPS_LIBA_MIBIG_mibig_accession'',
      ''DEREP_MIBIG_mibig_accession'', ''DEREP+_MIBIG_mibig_accession'',
      ''CSI_MIBIG_mibig_accession'']"

record levels =
  level_2 :: cell
  level_3 :: cell
  level_4 :: cell
  level_2_3 :: cell
  level_2_3_4 :: cell

text \<open>The body of the tier loop, for one row.\<close>

definition row_levels :: "row \<Rightarrow> error + levels" where
  "row_levels r =
     ebind (yes_if_any r level_2_evidence) (\<lambda>l2.
     ebind (yes_if_any r level_3_evidence) (\<lambda>l3.
     ebind (yes_if_any r level_4_evidence) (\<lambda>l4.
     ebind (yes_if_any r level_2_3_evidence) (\<lambda>l23.
     ebind (yes_if_any r level_2_3_4_evidence) (\<lambda>l234.
       Inr \<lparr>level_2 = l2, level_3 = l3, level_4 = l4, level_2_3 = l23, level_2_3_4 = l234\<rparr>)))))"

text \<open>The tier loop and the five column assignments after it.\<close>

definition is_microbial_level :: "table \<Rightarrow> error + table" where
  "is_microbial_level t =
     ebind (mapM row_levels t) (\<lambda>ls.
     ebind (set_column ''is_microbial_level_2'' (map level_2 ls) t) (\<lambda>t1.
     ebind (set_column ''is_microbial_level_3'' (map level_3 ls) t1) (\<lambda>t2.
     ebind (set_column ''is_microbial_level_4'' (map level_4 ls) t2) (\<lambda>t3.
     ebind (set_column ''is_microbial_level_2_3'' (map level_2_3 ls) t3) (\<lambda>t4.
       set_column ''is_microbial_level_2_3_4'' (map level_2_3_4 ls) t4)))))"

section \<open>Tool summary\<close>

text \<open>
  The statements of the summary loop, for one row, as they are written. The first test
  sets \<open>element\<close> and \<open>identifier\<close>, the nine tests after it append to them, each the
  label with its pipe and the cell's string with a pipe; adding the pipe to a cell that
  is a number is a \<^verbatim>\<open>TypeError\<close>. The tests are kept as the pairs of the column that is
  read and the label that is appended, in the order of the source.
\<close>

definition tool_initiating :: "row \<Rightarrow> error + string \<times> string" where
  "tool_initiating r =
     ebind (getcol r ''GNPS_LIB_NPA_npaid'') (\<lambda>v.
       case v of
         NaN \<Rightarrow> Inr ([], [])
       | Str s \<Rightarrow> Inr (''GNPS_LIB_NPA|'', s @ ''|'')
       | Num i \<Rightarrow> Inl TypeError)"

definition tool_tests :: "(string \<times> string) list" where
  "tool_tests =
     [(''GNPS_LIBA_NPA_npaid'', ''GNPS_LIBA_NPA|''),
      (''DEREP_NPA_npaid'', ''DEREP_NPA|''),
      (''DEREP+_NPA_npaid'', ''DEREP+_NPA|''),
      (''CSI_NPA_npaid'', ''CSI_NPA|''),
      (''GNPS_LIB_MIBIG_mibig_accession'', ''GNPS_LIB_MIBIG|''),
      (''GNPS_LIBA_MIBIG_mibig_accession'', ''GNPS_LIBA_MIBIG|''),
      (''DEREP_MIBIG_mibig_accession'', ''DEREP_MIBIG|''),
      (''DEREP+_MIBIG_mibig_accession'', ''DEREP+_MIBIG|''),
      (''CSI_MIBIG_mibig_accession'', ''CSI_MIBIG|'')]"

fun tool_append :: "row \<Rightarrow> (string \<times> string) list \<Rightarrow> string \<times> string \<Rightarrow> error + string \<times> string" where
  "tool_append r [] acc = Inr acc"
| "tool_append r ((c, label) # tests) (element, identifier) =
     (case getcol r c of
        Inl e \<Rightarrow> Inl e
      | Inr NaN \<Rightarrow> tool_append r tests (element, identifier)
      | Inr (Str s) \<Rightarrow> tool_append r tests (element @ label, identifier @ s @ ''|'')
      | Inr (Num i) \<Rightarrow> Inl TypeError)"

definition row_tool :: "row \<Rightarrow> error + string \<times> string" where
  "row_tool r = ebind (tool_initiating r) (tool_append r tool_tests)"

text \<open>
  The cell that holds the summary loop. After the loop it assigns the two columns,
  \<^verbatim>\<open>table['is_microbial_tool'] = element_list\<close> at the left margin and
  \<^verbatim>\<open>table['is_microbial_tool_id'] = id_list\<close> indented by four spaces on the line after
  it. Python refuses to compile the cell (\<^verbatim>\<open>IndentationError: unexpected indent\<close>), so
  no statement of it runs, whatever the table: the loop is not run and neither column is
  assigned.
\<close>

definition is_microbial_tool :: "table \<Rightarrow> error + table" where
  "is_microbial_tool t = Inl IndentationError"

section \<open>Network propagator\<close>

text \<open>
  \<^verbatim>\<open>def _propagate_microbial_annotation(table, column)\<close>. The first loop collects the
  cluster ids of the rows on which \<^verbatim>\<open>row[column] is not np.nan\<close> holds, the sentinel
  apart (the cluster id is read only on such a row); the second loop marks the rows.
  The column is a tier column, assigned from a list of \<^verbatim>\<open>'YES'\<close> and \<^verbatim>\<open>np.nan\<close>:
  when no row of the table is positive on the tier it is a \<^verbatim>\<open>float64\<close> column, its
  cells are read as new floats (\<open>boxed\<close>) and the test holds on every row.
\<close>

fun propagate_loop :: "bool \<Rightarrow> string \<Rightarrow> table \<Rightarrow> error + cell list" where
  "propagate_loop boxed column [] = Inr []"
| "propagate_loop boxed column (r # rows) =
     (case getcol r column of
        Inl e \<Rightarrow> Inl e
      | Inr v \<Rightarrow>
          if boxed \<or> v \<noteq> NaN then
            (case getcol r ''GNPS_componentindex'' of
               Inl e \<Rightarrow> Inl e
             | Inr c \<Rightarrow>
                 if c \<noteq> Num (- 1)
                 then (case propagate_loop boxed column rows of
                         Inl e \<Rightarrow> Inl e
                       | Inr l \<Rightarrow> Inr (c # l))
                 else propagate_loop boxed column rows)
          else propagate_loop boxed column rows)"

definition propagate_list :: "string \<Rightarrow> table \<Rightarrow> error + cell list" where
  "propagate_list column t = propagate_loop (\<not> object_dtype (map (cell_at column) t)) column t"

text \<open>The second loop, for one row, and the two column assignments. The list
  \<^verbatim>\<open>propagate_componentid\<close> holds cluster ids and \<^verbatim>\<open>np.nan\<close>: assigned to the table
  it becomes a \<^verbatim>\<open>float64\<close> column as soon as one row is not marked, and the ids are
  stored as floats. The list \<^verbatim>\<open>propagate_column\<close> holds \<^verbatim>\<open>'YES'\<close> and \<^verbatim>\<open>np.nan\<close>
  only.\<close>

definition propagate_row :: "cell list \<Rightarrow> row \<Rightarrow> error + cell \<times> cell" where
  "propagate_row pl r =
     ebind (getcol r ''GNPS_componentindex'') (\<lambda>c.
       if c \<in> set pl then Inr (Str ''YES'', c) else Inr (NaN, NaN))"

definition propagate_microbial_annotation :: "string \<Rightarrow> table \<Rightarrow> error + table" where
  "propagate_microbial_annotation column t =
     ebind (propagate_list column t) (\<lambda>pl.
     ebind (mapM (propagate_row pl) t) (\<lambda>ps.
     ebind (set_column (column @ ''_network'') (map fst ps) t) (\<lambda>t1.
       set_column (column @ ''_networkid'') (as_column (map snd ps)) t1)))"

definition propagate_all :: "table \<Rightarrow> error + table" where
  "propagate_all t =
     ebind (propagate_microbial_annotation ''is_microbial_level_2'' t) (\<lambda>t1.
     ebind (propagate_microbial_annotation ''is_microbial_level_3'' t1) (\<lambda>t2.
     ebind (propagate_microbial_annotation ''is_microbial_level_4'' t2) (\<lambda>t3.
     ebind (propagate_microbial_annotation ''is_microbial_level_2_3'' t3) (\<lambda>t4.
       propagate_microbial_annotation ''is_microbial_level_2_3_4'' t4))))"

section \<open>The notebook\<close>

text \<open>\<^verbatim>\<open>table.drop(c, axis=1)\<close>\<close>

definition drop_column :: "string \<Rightarrow> table \<Rightarrow> error + table" where
  "drop_column c t = ebind (column_of c t) (\<lambda>vs. Inr (map (AList.delete c) t))"

text \<open>The normalized keys of the feature table, the ten joins, the tiers, the summary,
  the propagation and the table that is written out, from the three tables as read; the
  cells of the notebook run in order and the run stops at the first one that fails.\<close>

definition prepare_features :: "table \<Rightarrow> error + table" where
  "prepare_features features =
     ebind (prepare_inchikey gnps_lib features) (\<lambda>f1.
     ebind (prepare_inchikey gnps_liba f1) (\<lambda>f2.
     ebind (prepare_inchikey derep f2) (\<lambda>f3.
     ebind (prepare_inchikey derepplus f3) (\<lambda>f4.
       prepare_inchikey csi f4))))"

definition evidence_join :: "table \<Rightarrow> table \<Rightarrow> table \<Rightarrow> error + table" where
  "evidence_join features npatlas_read mibig_read =
     ebind (prepare_inchikey ''NPA_compound_inchikey'' (rename_prefix ''NPA_'' npatlas_read)) (\<lambda>npatlas.
     ebind (prepare_features features) (\<lambda>features'.
     ebind (join_npatlas features' npatlas) (\<lambda>merged.
       join_mibig merged (rename_prefix ''MIBIG_'' mibig_read))))"

definition notebook :: "table \<Rightarrow> table \<Rightarrow> table \<Rightarrow> error + table" where
  "notebook features npatlas_read mibig_read =
     ebind (evidence_join features npatlas_read mibig_read) (\<lambda>t.
     ebind (is_microbial_level t) (\<lambda>t1.
     ebind (is_microbial_tool t1) (\<lambda>t2.
     ebind (propagate_all t2) (\<lambda>t3.
       drop_column ''Unnamed: 0'' t3))))"

section \<open>Vocabulary of the properties\<close>

text \<open>
  The definitions of this section are not taken from the source: they are the words in
  which the properties are stated. A column is an evidence for a row when the row has it
  and its value is not missing; a tier marker is \<^verbatim>\<open>'YES'\<close> or missing.
\<close>

definition present :: "row \<Rightarrow> string \<Rightarrow> bool" where
  "present r c = (case map_of r c of None \<Rightarrow> False | Some v \<Rightarrow> v \<noteq> NaN)"

definition marker :: "bool \<Rightarrow> cell" where
  "marker b = (if b then Str ''YES'' else NaN)"

text \<open>
  What the summary columns are specified to hold: the ten tests in their fixed order
  (NPAtlas before MIBIG; library match, analogue match, the two dereplicators, the
  in-silico tool), and for a row the label and the identifier cell of every test whose
  column holds a string, in that order.
\<close>

definition all_tool_tests :: "(string \<times> string) list" where
  "all_tool_tests = (''GNPS_LIB_NPA_npaid'', ''GNPS_LIB_NPA|'') # tool_tests"



text \<open>
  The strings of the values that a field has in the reference rows with a given key, in
  table order: what the aggregator joins with pipes.
\<close>

definition field_strings :: "string \<Rightarrow> string \<Rightarrow> cell \<Rightarrow> table \<Rightarrow> string list" where
  "field_strings key f k t =
     map (py_str (float_dtype (map (cell_at f) t))) (map (cell_at f) (group_rows key k t))"

section \<open>Example tables\<close>

text \<open>A feature row whose library match has an NPAtlas compound, and one with no
  evidence at all, both in cluster 7; and the table the tier loop makes of them.\<close>

definition example_hit :: row where
  "example_hit =
     [(''GNPS_componentindex'', Num 7),
      (''GNPS_LIB_NPA_compound_id'', Str ''12345''), (''GNPS_LIBA_NPA_compound_id'', NaN),
      (''DEREP_NPA_compound_id'', NaN), (''DEREP+_NPA_compound_id'', NaN),
      (''CSI_NPA_compound_id'', NaN),
      (''GNPS_LIB_MIBIG_mibig_accession'', NaN), (''GNPS_LIBA_MIBIG_mibig_accession'', NaN),
      (''DEREP_MIBIG_mibig_accession'', NaN), (''DEREP+_MIBIG_mibig_accession'', NaN),
      (''CSI_MIBIG_mibig_accession'', NaN)]"

definition example_none :: row where
  "example_none =
     [(''GNPS_componentindex'', Num 7),
      (''GNPS_LIB_NPA_compound_id'', NaN), (''GNPS_LIBA_NPA_compound_id'', NaN),
      (''DEREP_NPA_compound_id'', NaN), (''DEREP+_NPA_compound_id'', NaN),
      (''CSI_NPA_compound_id'', NaN),
      (''GNPS_LIB_MIBIG_mibig_accession'', NaN), (''GNPS_LIBA_MIBIG_mibig_accession'', NaN),
      (''DEREP_MIBIG_mibig_accession'', NaN), (''DEREP+_MIBIG_mibig_accession'', NaN),
      (''CSI_MIBIG_mibig_accession'', NaN)]"

definition example_levels :: table where
  "example_levels =
     [example_hit @
        [(''is_microbial_level_2'', Str ''YES''), (''is_microbial_level_3'', NaN),
         (''is_microbial_level_4'', NaN), (''is_microbial_level_2_3'', Str ''YES''),
         (''is_microbial_level_2_3_4'', Str ''YES'')],
      example_none @
        [(''is_microbial_level_2'', NaN), (''is_microbial_level_3'', NaN),
         (''is_microbial_level_4'', NaN), (''is_microbial_level_2_3'', NaN),
         (''is_microbial_level_2_3_4'', NaN)]]"


definition example_tool_none :: row where
  "example_tool_none =
     [(''GNPS_LIB_NPA_npaid'', NaN), (''GNPS_LIBA_NPA_npaid'', NaN),
      (''DEREP_NPA_npaid'', NaN), (''DEREP+_NPA_npaid'', NaN), (''CSI_NPA_npaid'', NaN),
      (''GNPS_LIB_MIBIG_mibig_accession'', NaN), (''GNPS_LIBA_MIBIG_mibig_accession'', NaN),
      (''DEREP_MIBIG_mibig_accession'', NaN), (''DEREP+_MIBIG_mibig_accession'', NaN),
      (''CSI_MIBIG_mibig_accession'', NaN)]"

text \<open>Rows of a table with the column \<^verbatim>\<open>is_microbial_level_2\<close>: a hit without a cluster,
  a hit in cluster 7, a second member of cluster 7, a row of cluster 8 and a row without
  a cluster, none of the last three a hit; and the table the propagation makes of them.\<close>

definition example_sentinel :: row where
  "example_sentinel =
     [(''GNPS_componentindex'', Num (- 1)), (''is_microbial_level_2'', Str ''YES'')]"

definition example_source :: row where
  "example_source = [(''GNPS_componentindex'', Num 7), (''is_microbial_level_2'', Str ''YES'')]"

definition example_member :: row where
  "example_member = [(''GNPS_componentindex'', Num 7), (''is_microbial_level_2'', NaN)]"

definition example_other :: row where
  "example_other = [(''GNPS_componentindex'', Num 8), (''is_microbial_level_2'', NaN)]"

definition example_single :: row where
  "example_single = [(''GNPS_componentindex'', Num (- 1)), (''is_microbial_level_2'', NaN)]"




text \<open>The table of the tier loop above, after the propagation of the third tier, on which
  no row is positive.\<close>

definition example_levels_network :: table where
  "example_levels_network =
     [example_hit @
        [(''is_microbial_level_2'', Str ''YES''), (''is_microbial_level_3'', NaN),
         (''is_microbial_level_4'', NaN), (''is_microbial_level_2_3'', Str ''YES''),
         (''is_microbial_level_2_3_4'', Str ''YES''),
         (''is_microbial_level_3_network'', Str ''YES''), (''is_microbial_level_3_networkid'', Num 7)],
      example_none @
        [(''is_microbial_level_2'', NaN), (''is_microbial_level_3'', NaN),
         (''is_microbial_level_4'', NaN), (''is_microbial_level_2_3'', NaN),
         (''is_microbial_level_2_3_4'', NaN),
         (''is_microbial_level_3_network'', Str ''YES''), (''is_microbial_level_3_networkid'', Num 7)]]"

text \<open>The reference tables as the joins receive them: NPAtlas with its normalized key
  (two compounds share a first block, a third has no InChIKey) and MIBIG (two records of
  one compound, the second without a taxon, so that the taxon is a column of floats);
  and the aggregated references, for one prefix each.\<close>

definition example_npatlas :: table where
  "example_npatlas =
     [[(''NPA_npaid'', Str ''NPA12345''), (''NPA_compound_id'', Num 12345),
       (''NPA_compound_names'', Str ''Examplamycin A''), (''NPA_origin_type'', Str ''Bacterium''),
       (''NPA_genus'', Str ''Streptomyces''), (''NPA_origin_species'', Str ''albus''),
       (''NPA_mibig_ids'', NaN), (''NPA_compound_inchikey'', Str ''ABCDEFGHIJKLMN-XXXXXXXX-X''),
       (''NPA_compound_inchikey_no_stereo'', Str ''ABCDEFGHIJKLMN'')],
      [(''NPA_npaid'', Str ''NPA67890''), (''NPA_compound_id'', Num 67890),
       (''NPA_compound_names'', Str ''Examplamycin B''), (''NPA_origin_type'', Str ''Fungus''),
       (''NPA_genus'', Str ''Aspergillus''), (''NPA_origin_species'', NaN),
       (''NPA_mibig_ids'', NaN), (''NPA_compound_inchikey'', Str ''ABCDEFGHIJKLMN-YYYYYYYY-Y''),
       (''NPA_compound_inchikey_no_stereo'', Str ''ABCDEFGHIJKLMN'')],
      [(''NPA_npaid'', Str ''NPA00001''), (''NPA_compound_id'', Num 1),
       (''NPA_compound_names'', Str ''Unkeyed''), (''NPA_origin_type'', Str ''Bacterium''),
       (''NPA_genus'', Str ''Bacillus''), (''NPA_origin_species'', NaN), (''NPA_mibig_ids'', NaN),
       (''NPA_compound_inchikey'', NaN), (''NPA_compound_inchikey_no_stereo'', NaN)]]"

definition example_mibig :: table where
  "example_mibig =
     [[(''MIBIG_mibig_accession'', Str ''BGC0000001''),
       (''MIBIG_organism_name'', Str ''Streptomyces albus''),
       (''MIBIG_compound_name'', Str ''examplin''), (''MIBIG_ncbi_tax_id'', Num 1888),
       (''MIBIG_no_stereo_inchikey'', Str ''OPQRSTUVWXYZAB'')],
      [(''MIBIG_mibig_accession'', Str ''BGC0000002''),
       (''MIBIG_organism_name'', Str ''Streptomyces sp.''),
       (''MIBIG_compound_name'', Str ''examplin''), (''MIBIG_ncbi_tax_id'', NaN),
       (''MIBIG_no_stereo_inchikey'', Str ''OPQRSTUVWXYZAB'')]]"

definition example_npatlas2 :: table where
  "example_npatlas2 =
     [[(''GNPS_LIB_NPA_compound_inchikey_no_stereo'', Str ''ABCDEFGHIJKLMN''),
       (''GNPS_LIB_NPA_npaid'', Str ''NPA12345|NPA67890''),
       (''GNPS_LIB_NPA_compound_id'', Str ''12345|67890''),
       (''GNPS_LIB_NPA_compound_names'', Str ''Examplamycin A|Examplamycin B''),
       (''GNPS_LIB_NPA_origin_type'', Str ''Bacterium|Fungus''),
       (''GNPS_LIB_NPA_genus'', Str ''Streptomyces|Aspergillus''),
       (''GNPS_LIB_NPA_origin_species'', Str ''albus|nan''),
       (''GNPS_LIB_NPA_mibig_ids'', Str ''nan|nan'')]]"

definition example_mibig2 :: table where
  "example_mibig2 =
     [[(''CSI_MIBIG_no_stereo_inchikey'', Str ''OPQRSTUVWXYZAB''),
       (''CSI_MIBIG_mibig_accession'', Str ''BGC0000001|BGC0000002''),
       (''CSI_MIBIG_organism_name'', Str ''Streptomyces albus|Streptomyces sp.''),
       (''CSI_MIBIG_compound_name'', Str ''examplin|examplin''),
       (''CSI_MIBIG_ncbi_tax_id'', Str ''1888.0|nan'')]]"

text \<open>An NPAtlas table in which a compound name holds a pipe, and its aggregate.\<close>

definition example_pipe :: table where
  "example_pipe =
     [[(''NPA_npaid'', Str ''NPA12345''), (''NPA_compound_id'', Num 12345),
       (''NPA_compound_names'', Str ''Examplamycin A|A1''), (''NPA_origin_type'', Str ''Bacterium''),
       (''NPA_genus'', Str ''Streptomyces''), (''NPA_origin_species'', Str ''albus''),
       (''NPA_mibig_ids'', NaN), (''NPA_compound_inchikey'', Str ''ABCDEFGHIJKLMN-XXXXXXXX-X''),
       (''NPA_compound_inchikey_no_stereo'', Str ''ABCDEFGHIJKLMN'')],
      [(''NPA_npaid'', Str ''NPA67890''), (''NPA_compound_id'', Num 67890),
       (''NPA_compound_names'', Str ''Examplamycin B''), (''NPA_origin_type'', Str ''Fungus''),
       (''NPA_genus'', Str ''Aspergillus''), (''NPA_origin_species'', NaN),
       (''NPA_mibig_ids'', NaN), (''NPA_compound_inchikey'', Str ''ABCDEFGHIJKLMN-YYYYYYYY-Y''),
       (''NPA_compound_inchikey_no_stereo'', Str ''ABCDEFGHIJKLMN'')]]"

definition example_pipe2 :: table where
  "example_pipe2 =
     [[(''GNPS_LIB_NPA_compound_inchikey_no_stereo'', Str ''ABCDEFGHIJKLMN''),
       (''GNPS_LIB_NPA_npaid'', Str ''NPA12345|NPA67890''),
       (''GNPS_LIB_NPA_compound_id'', Str ''12345|67890''),
       (''GNPS_LIB_NPA_compound_names'', Str ''Examplamycin A|A1|Examplamycin B''),
       (''GNPS_LIB_NPA_origin_type'', Str ''Bacterium|Fungus''),
       (''GNPS_LIB_NPA_genus'', Str ''Streptomyces|Aspergillus''),
       (''GNPS_LIB_NPA_origin_species'', Str ''albus|nan''),
       (''GNPS_LIB_NPA_mibig_ids'', Str ''nan|nan'')]]"

text \<open>Two feature rows with normalized keys only, and their joins.\<close>

definition example_keys :: table where
  "example_keys =
     [[(''GNPS_LIB_Consol_InChIKey_no_stereo'', Str ''ABCDEFGHIJKLMN''),
       (''CSI_InChIkey2D_no_stereo'', NaN)],
      [(''GNPS_LIB_Consol_InChIKey_no_stereo'', NaN),
       (''CSI_InChIkey2D_no_stereo'', Str ''OPQRSTUVWXYZAB'')]]"

definition example_joined_npatlas :: table where
  "example_joined_npatlas =
     [[(''GNPS_LIB_Consol_InChIKey_no_stereo'', Str ''ABCDEFGHIJKLMN''),
       (''CSI_InChIkey2D_no_stereo'', NaN),
       (''GNPS_LIB_NPA_compound_inchikey_no_stereo'', Str ''ABCDEFGHIJKLMN''),
       (''GNPS_LIB_NPA_npaid'', Str ''NPA12345|NPA67890''),
       (''GNPS_LIB_NPA_compound_id'', Str ''12345|67890''),
       (''GNPS_LIB_NPA_compound_names'', Str ''Examplamycin A|Examplamycin B''),
       (''GNPS_LIB_NPA_origin_type'', Str ''Bacterium|Fungus''),
       (''GNPS_LIB_NPA_genus'', Str ''Streptomyces|Aspergillus''),
       (''GNPS_LIB_NPA_origin_species'', Str ''albus|nan''),
       (''GNPS_LIB_NPA_mibig_ids'', Str ''nan|nan'')],
      [(''GNPS_LIB_Consol_InChIKey_no_stereo'', NaN),
       (''CSI_InChIkey2D_no_stereo'', Str ''OPQRSTUVWXYZAB''),
       (''GNPS_LIB_NPA_compound_inchikey_no_stereo'', NaN), (''GNPS_LIB_NPA_npaid'', NaN),
       (''GNPS_LIB_NPA_compound_id'', NaN), (''GNPS_LIB_NPA_compound_names'', NaN),
       (''GNPS_LIB_NPA_origin_type'', NaN), (''GNPS_LIB_NPA_genus'', NaN),
       (''GNPS_LIB_NPA_origin_species'', NaN), (''GNPS_LIB_NPA_mibig_ids'', NaN)]]"

definition example_joined_mibig :: table where
  "example_joined_mibig =
     [[(''GNPS_LIB_Consol_InChIKey_no_stereo'', Str ''ABCDEFGHIJKLMN''),
       (''CSI_InChIkey2D_no_stereo'', NaN), (''CSI_MIBIG_no_stereo_inchikey'', NaN),
       (''CSI_MIBIG_mibig_accession'', NaN), (''CSI_MIBIG_organism_name'', NaN),
       (''CSI_MIBIG_compound_name'', NaN), (''CSI_MIBIG_ncbi_tax_id'', NaN)],
      [(''GNPS_LIB_Consol_InChIKey_no_stereo'', NaN),
       (''CSI_InChIkey2D_no_stereo'', Str ''OPQRSTUVWXYZAB''),
       (''CSI_MIBIG_no_stereo_inchikey'', Str ''OPQRSTUVWXYZAB''),
       (''CSI_MIBIG_mibig_accession'', Str ''BGC0000001|BGC0000002''),
       (''CSI_MIBIG_organism_name'', Str ''Streptomyces albus|Streptomyces sp.''),
       (''CSI_MIBIG_compound_name'', Str ''examplin|examplin''),
       (''CSI_MIBIG_ncbi_tax_id'', Str ''1888.0|nan'')]]"

text \<open>A table with a library identifier in one row and none in the other, the table
  the identifier normalizer makes of it and the one it makes of that; and a table in
  which no row has a dereplicator identifier.\<close>

definition example_identifiers :: table where
  "example_identifiers =
     [[(''GNPS_LIB_Consol_InChIKey'', Str ''ABCDEFGHIJKLMN-UHFFFAOYSA-N''),
       (''GNPS_componentindex'', Num 7)],
      [(''GNPS_LIB_Consol_InChIKey'', NaN), (''GNPS_componentindex'', Num (- 1))]]"

definition example_normalized :: table where
  "example_normalized =
     [[(''GNPS_LIB_Consol_InChIKey'', Str ''ABCDEFGHIJKLMN-UHFFFAOYSA-N''),
       (''GNPS_componentindex'', Num 7),
       (''GNPS_LIB_Consol_InChIKey_no_stereo'', Str ''ABCDEFGHIJKLMN'')],
      [(''GNPS_LIB_Consol_InChIKey'', NaN), (''GNPS_componentindex'', Num (- 1)),
       (''GNPS_LIB_Consol_InChIKey_no_stereo'', NaN)]]"

definition example_normalized_again :: table where
  "example_normalized_again =
     [[(''GNPS_LIB_Consol_InChIKey'', Str ''ABCDEFGHIJKLMN-UHFFFAOYSA-N''),
       (''GNPS_componentindex'', Num 7),
       (''GNPS_LIB_Consol_InChIKey_no_stereo'', Str ''ABCDEFGHIJKLMN''),
       (''GNPS_LIB_Consol_InChIKey_no_stereo_no_stereo'', Str ''ABCDEFGHIJKLMN'')],
      [(''GNPS_LIB_Consol_InChIKey'', NaN), (''GNPS_componentindex'', Num (- 1)),
       (''GNPS_LIB_Consol_InChIKey_no_stereo'', NaN),
       (''GNPS_LIB_Consol_InChIKey_no_stereo_no_stereo'', NaN)]]"

definition example_unannotated :: table where
  "example_unannotated =
     [[(''GNPS_LIB_Consol_InChIKey'', Str ''ABCDEFGHIJKLMN-UHFFFAOYSA-N''),
       (''DEREP_Consol_InChIKey'', NaN), (''GNPS_componentindex'', Num 7)],
      [(''GNPS_LIB_Consol_InChIKey'', NaN), (''DEREP_Consol_InChIKey'', NaN),
       (''GNPS_componentindex'', Num (- 1))]]"

text \<open>
  The three tables of a small run of the notebook, as read. Two features: the library
  match of the first shares its first block with two NPAtlas compounds and its in-silico
  structure is a MIBIG compound; the second has the other three identifiers, none of them
  in a reference. An NPAtlas table with the two compounds and one without an InChIKey; a
  MIBIG table with two records of one compound. \<open>example_joined\<close> is the feature table
  after the ten joins.
\<close>

definition example_features :: table where
  "example_features =
     [[(''Unnamed: 0'', Num 0),
       (''GNPS_LIB_Consol_InChIKey'', Str ''ABCDEFGHIJKLMN-UHFFFAOYSA-N''),
       (''GNPS_LIBA_Consol_InChIKey'', NaN),
       (''DEREP_Consol_InChIKey'', NaN),
       (''DEREP+_Consol_InChIKey'', NaN),
       (''CSI_InChIkey2D'', Str ''OPQRSTUVWXYZAB''),
       (''GNPS_componentindex'', Num 7)],
      [(''Unnamed: 0'', Num 1),
       (''GNPS_LIB_Consol_InChIKey'', NaN),
       (''GNPS_LIBA_Consol_InChIKey'', Str ''BBBBBBBBBBBBBB-UHFFFAOYSA-N''),
       (''DEREP_Consol_InChIKey'', Str ''CCCCCCCCCCCCCC-UHFFFAOYSA-N''),
       (''DEREP+_Consol_InChIKey'', Str ''DDDDDDDDDDDDDD-UHFFFAOYSA-N''),
       (''CSI_InChIkey2D'', NaN),
       (''GNPS_componentindex'', Num (- 1))]]"

definition example_npatlas_read :: table where
  "example_npatlas_read =
     [[(''npaid'', Str ''NPA12345''), (''compound_id'', Num 12345),
       (''compound_names'', Str ''Examplamycin A''), (''origin_type'', Str ''Bacterium''),
       (''genus'', Str ''Streptomyces''), (''origin_species'', Str ''albus''),
       (''mibig_ids'', NaN), (''compound_inchikey'', Str ''ABCDEFGHIJKLMN-XXXXXXXX-X'')],
      [(''npaid'', Str ''NPA67890''), (''compound_id'', Num 67890),
       (''compound_names'', Str ''Examplamycin B''), (''origin_type'', Str ''Fungus''),
       (''genus'', Str ''Aspergillus''), (''origin_species'', NaN),
       (''mibig_ids'', NaN), (''compound_inchikey'', Str ''ABCDEFGHIJKLMN-YYYYYYYY-Y'')],
      [(''npaid'', Str ''NPA00001''), (''compound_id'', Num 1),
       (''compound_names'', Str ''Unkeyed''), (''origin_type'', Str ''Bacterium''),
       (''genus'', Str ''Bacillus''), (''origin_species'', NaN),
       (''mibig_ids'', NaN), (''compound_inchikey'', NaN)]]"

definition example_mibig_read :: table where
  "example_mibig_read =
     [[(''mibig_accession'', Str ''BGC0000001''), (''organism_name'', Str ''Streptomyces albus''),
       (''compound_name'', Str ''examplin''), (''ncbi_tax_id'', Num 1888),
       (''no_stereo_inchikey'', Str ''OPQRSTUVWXYZAB'')],
      [(''mibig_accession'', Str ''BGC0000002''), (''organism_name'', Str ''Streptomyces sp.''),
       (''compound_name'', Str ''examplin''), (''ncbi_tax_id'', NaN),
       (''no_stereo_inchikey'', Str ''OPQRSTUVWXYZAB'')]]"

definition example_joined :: table where
  "example_joined =
     [[(''Unnamed: 0'', Num 0),
       (''GNPS_LIB_Consol_InChIKey'', Str ''ABCDEFGHIJKLMN-UHFFFAOYSA-N''),
       (''GNPS_LIBA_Consol_InChIKey'', NaN), (''DEREP_Consol_InChIKey'', NaN),
       (''DEREP+_Consol_InChIKey'', NaN), (''CSI_InChIkey2D'', Str ''OPQRSTUVWXYZAB''),
       (''GNPS_componentindex'', Num 7),
       (''GNPS_LIB_Consol_InChIKey_no_stereo'', Str ''ABCDEFGHIJKLMN''),
       (''GNPS_LIBA_Consol_InChIKey_no_stereo'', NaN),
       (''DEREP_Consol_InChIKey_no_stereo'', NaN), (''DEREP+_Consol_InChIKey_no_stereo'', NaN),
       (''CSI_InChIkey2D_no_stereo'', Str ''OPQRSTUVWXYZAB''),
       (''GNPS_LIB_NPA_compound_inchikey_no_stereo'', Str ''ABCDEFGHIJKLMN''),
       (''GNPS_LIB_NPA_npaid'', Str ''NPA12345|NPA67890''),
       (''GNPS_LIB_NPA_compound_id'', Str ''12345|67890''),
       (''GNPS_LIB_NPA_compound_names'', Str ''Examplamycin A|Examplamycin B''),
       (''GNPS_LIB_NPA_origin_type'', Str ''Bacterium|Fungus''),
       (''GNPS_LIB_NPA_genus'', Str ''Streptomyces|Aspergillus''),
       (''GNPS_LIB_NPA_origin_species'', Str ''albus|nan''),
       (''GNPS_LIB_NPA_mibig_ids'', Str ''nan|nan''),
       (''GNPS_LIBA_NPA_compound_inchikey_no_stereo'', NaN), (''GNPS_LIBA_NPA_npaid'', NaN),
       (''GNPS_LIBA_NPA_compound_id'', NaN), (''GNPS_LIBA_NPA_compound_names'', NaN),
       (''GNPS_LIBA_NPA_origin_type'', NaN), (''GNPS_LIBA_NPA_genus'', NaN),
       (''GNPS_LIBA_NPA_origin_species'', NaN), (''GNPS_LIBA_NPA_mibig_ids'', NaN),
       (''DEREP_NPA_compound_inchikey_no_stereo'', NaN), (''DEREP_NPA_npaid'', NaN),
       (''DEREP_NPA_compound_id'', NaN), (''DEREP_NPA_compound_names'', NaN),
       (''DEREP_NPA_origin_type'', NaN), (''DEREP_NPA_genus'', NaN),
       (''DEREP_NPA_origin_species'', NaN), (''DEREP_NPA_mibig_ids'', NaN),
       (''DEREP+_NPA_compound_inchikey_no_stereo'', NaN), (''DEREP+_NPA_npaid'', NaN),
       (''DEREP+_NPA_compound_id'', NaN), (''DEREP+_NPA_compound_names'', NaN),
       (''DEREP+_NPA_origin_type'', NaN), (''DEREP+_NPA_genus'', NaN),
       (''DEREP+_NPA_origin_species'', NaN), (''DEREP+_NPA_mibig_ids'', NaN),
       (''CSI_NPA_compound_inchikey_no_stereo'', NaN), (''CSI_NPA_npaid'', NaN),
       (''CSI_NPA_compound_id'', NaN), (''CSI_NPA_compound_names'', NaN),
       (''CSI_NPA_origin_type'', NaN), (''CSI_NPA_genus'', NaN),
       (''CSI_NPA_origin_species'', NaN), (''CSI_NPA_mibig_ids'', NaN),
       (''GNPS_LIB_MIBIG_no_stereo_inchikey'', NaN), (''GNPS_LIB_MIBIG_mibig_accession'', NaN),
       (''GNPS_LIB_MIBIG_organism_name'', NaN), (''GNPS_LIB_MIBIG_compound_name'', NaN),
       (''GNPS_LIB_MIBIG_ncbi_tax_id'', NaN), (''GNPS_LIBA_MIBIG_no_stereo_inchikey'', NaN),
       (''GNPS_LIBA_MIBIG_mibig_accession'', NaN), (''GNPS_LIBA_MIBIG_organism_name'', NaN),
       (''GNPS_LIBA_MIBIG_compound_name'', NaN), (''GNPS_LIBA_MIBIG_ncbi_tax_id'', NaN),
       (''DEREP_MIBIG_no_stereo_inchikey'', NaN), (''DEREP_MIBIG_mibig_accession'', NaN),
       (''DEREP_MIBIG_organism_name'', NaN), (''DEREP_MIBIG_compound_name'', NaN),
       (''DEREP_MIBIG_ncbi_tax_id'', NaN), (''DEREP+_MIBIG_no_stereo_inchikey'', NaN),
       (''DEREP+_MIBIG_mibig_accession'', NaN), (''DEREP+_MIBIG_organism_name'', NaN),
       (''DEREP+_MIBIG_compound_name'', NaN), (''DEREP+_MIBIG_ncbi_tax_id'', NaN),
       (''CSI_MIBIG_no_stereo_inchikey'', Str ''OPQRSTUVWXYZAB''),
       (''CSI_MIBIG_mibig_accession'', Str ''BGC0000001|BGC0000002''),
       (''CSI_MIBIG_organism_name'', Str ''Streptomyces albus|Streptomyces sp.''),
       (''CSI_MIBIG_compound_name'', Str ''examplin|examplin''),
       (''CSI_MIBIG_ncbi_tax_id'', Str ''1888.0|nan'')],
      [(''Unnamed: 0'', Num 1), (''GNPS_LIB_Consol_InChIKey'', NaN),
       (''GNPS_LIBA_Consol_InChIKey'', Str ''BBBBBBBBBBBBBB-UHFFFAOYSA-N''),
       (''DEREP_Consol_InChIKey'', Str ''CCCCCCCCCCCCCC-UHFFFAOYSA-N''),
       (''DEREP+_Consol_InChIKey'', Str ''DDDDDDDDDDDDDD-UHFFFAOYSA-N''),
       (''CSI_InChIkey2D'', NaN), (''GNPS_componentindex'', Num (- 1)),
       (''GNPS_LIB_Consol_InChIKey_no_stereo'', NaN),
       (''GNPS_LIBA_Consol_InChIKey_no_stereo'', Str ''BBBBBBBBBBBBBB''),
       (''DEREP_Consol_InChIKey_no_stereo'', Str ''CCCCCCCCCCCCCC''),
       (''DEREP+_Consol_InChIKey_no_stereo'', Str ''DDDDDDDDDDDDDD''),
       (''CSI_InChIkey2D_no_stereo'', NaN), (''GNPS_LIB_NPA_compound_inchikey_no_stereo'', NaN),
       (''GNPS_LIB_NPA_npaid'', NaN), (''GNPS_LIB_NPA_compound_id'', NaN),
       (''GNPS_LIB_NPA_compound_names'', NaN), (''GNPS_LIB_NPA_origin_type'', NaN),
       (''GNPS_LIB_NPA_genus'', NaN), (''GNPS_LIB_NPA_origin_species'', NaN),
       (''GNPS_LIB_NPA_mibig_ids'', NaN), (''GNPS_LIBA_NPA_compound_inchikey_no_stereo'', NaN),
       (''GNPS_LIBA_NPA_npaid'', NaN), (''GNPS_LIBA_NPA_compound_id'', NaN),
       (''GNPS_LIBA_NPA_compound_names'', NaN), (''GNPS_LIBA_NPA_origin_type'', NaN),
       (''GNPS_LIBA_NPA_genus'', NaN), (''GNPS_LIBA_NPA_origin_species'', NaN),
       (''GNPS_LIBA_NPA_mibig_ids'', NaN), (''DEREP_NPA_compound_inchikey_no_stereo'', NaN),
       (''DEREP_NPA_npaid'', NaN), (''DEREP_NPA_compound_id'', NaN),
       (''DEREP_NPA_compound_names'', NaN), (''DEREP_NPA_origin_type'', NaN),
       (''DEREP_NPA_genus'', NaN), (''DEREP_NPA_origin_species'', NaN),
       (''DEREP_NPA_mibig_ids'', NaN), (''DEREP+_NPA_compound_inchikey_no_stereo'', NaN),
       (''DEREP+_NPA_npaid'', NaN), (''DEREP+_NPA_compound_id'', NaN),
       (''DEREP+_NPA_compound_names'', NaN), (''DEREP+_NPA_origin_type'', NaN),
       (''DEREP+_NPA_genus'', NaN), (''DEREP+_NPA_origin_species'', NaN),
       (''DEREP+_NPA_mibig_ids'', NaN), (''CSI_NPA_compound_inchikey_no_stereo'', NaN),
       (''CSI_NPA_npaid'', NaN), (''CSI_NPA_compound_id'', NaN),
       (''CSI_NPA_compound_names'', NaN), (''CSI_NPA_origin_type'', NaN),
       (''CSI_NPA_genus'', NaN), (''CSI_NPA_origin_species'', NaN),
       (''CSI_NPA_mibig_ids'', NaN), (''GNPS_LIB_MIBIG_no_stereo_inchikey'', NaN),
       (''GNPS_LIB_MIBIG_mibig_accession'', NaN), (''GNPS_LIB_MIBIG_organism_name'', NaN),
       (''GNPS_LIB_MIBIG_compound_name'', NaN), (''GNPS_LIB_MIBIG_ncbi_tax_id'', NaN),
       (''GNPS_LIBA_MIBIG_no_stereo_inchikey'', NaN),
       (''GNPS_LIBA_MIBIG_mibig_accession'', NaN), (''GNPS_LIBA_MIBIG_organism_name'', NaN),
       (''GNPS_LIBA_MIBIG_compound_name'', NaN), (''GNPS_LIBA_MIBIG_ncbi_tax_id'', NaN),
       (''DEREP_MIBIG_no_stereo_inchikey'', NaN), (''DEREP_MIBIG_mibig_accession'', NaN),
       (''DEREP_MIBIG_organism_name'', NaN), (''DEREP_MIBIG_compound_name'', NaN),
       (''DEREP_MIBIG_ncbi_tax_id'', NaN), (''DEREP+_MIBIG_no_stereo_inchikey'', NaN),
       (''DEREP+_MIBIG_mibig_accession'', NaN), (''DEREP+_MIBIG_organism_name'', NaN),
       (''DEREP+_MIBIG_compound_name'', NaN), (''DEREP+_MIBIG_ncbi_tax_id'', NaN),
       (''CSI_MIBIG_no_stereo_inchikey'', NaN), (''CSI_MIBIG_mibig_accession'', NaN),
       (''CSI_MIBIG_organism_name'', NaN), (''CSI_MIBIG_compound_name'', NaN),
       (''CSI_MIBIG_ncbi_tax_id'', NaN)]]"

section \<open>Results, rows and columns\<close>

lemma ebind_Inr:
  "ebind m f = Inr y \<longleftrightarrow> (\<exists>x. m = Inr x \<and> f x = Inr y)"
  by (cases m) (simp_all add: ebind_def)

lemma mapM_Inr:
  "mapM f xs = Inr ys \<Longrightarrow> list_all2 (\<lambda>x y. f x = Inr y) xs ys"
  by (induction xs arbitrary: ys) (auto split: sum.splits)

lemma mapM_length:
  "mapM f xs = Inr ys \<Longrightarrow> length ys = length xs"
  by (drule mapM_Inr) (simp add: list_all2_lengthD)

lemma mapM_nth:
  "mapM f xs = Inr ys \<Longrightarrow> i < length xs \<Longrightarrow> f (xs ! i) = Inr (ys ! i)"
  by (drule mapM_Inr) (rule list_all2_nthD)

lemma mapM_total:
  "(\<And>x. x \<in> set xs \<Longrightarrow> \<exists>y. f x = Inr y) \<Longrightarrow> \<exists>ys. mapM f xs = Inr ys"
proof (induction xs)
  case Nil
  then show ?case by simp
next
  case (Cons x xs)
  then obtain y ys where "f x = Inr y" and "mapM f xs = Inr ys"
    by (metis list.set_intros)
  then show ?case by simp
qed

text \<open>The column that is made of a list holds, at each place, the value of the list
  or the float nearest to it; a whole number of at most 53 bits is the float that is made
  of it.\<close>

lemma as_column_length:
  "length (as_column vs) = length vs"
  by (simp add: as_column_def)




text \<open>Some floats and their strings: a tie between two floats, and the change to the
  exponent form.\<close>

lemma example_floats:
  "map round_double
     [9007199254740991, 9007199254740993, 9007199254740994, 9007199254740995, - 9007199254740993]
   = [9007199254740991, 9007199254740992, 9007199254740994, 9007199254740996, - 9007199254740992]"
  by code_simp

lemma example_float_strings:
  "map py_str_float
     [0, 1888, - 5, 1234567890123, 9007199254740992, 10000000000000000, 12345678901234568,
      9223372036854775808]
   = [''0.0'', ''1888.0'', ''-5.0'', ''1234567890123.0'', ''9007199254740992.0'', ''1e+16'',
      ''1.2345678901234568e+16'', ''9.223372036854776e+18'']"
  by code_simp

lemma set_column_Inr:
  assumes "set_column c vs t = Inr t'"
  shows "length t' = length t" and "length vs = length t"
    and "i < length t \<Longrightarrow> t' ! i = AList.update c (vs ! i) (t ! i)"
  using assms by (auto simp add: set_column_def split: if_splits)

lemma set_column_total:
  "length vs = length t \<Longrightarrow> \<exists>t'. set_column c vs t = Inr t'"
  by (simp add: set_column_def)

lemma getcol_update:
  "getcol (AList.update c v r) c' = (if c' = c then Inr v else getcol r c')"
  by (simp add: getcol_def update_conv')

lemma getcol_present:
  "getcol r c = Inr v \<Longrightarrow> present r c = (v \<noteq> NaN)"
  by (auto simp add: getcol_def present_def split: option.splits)

lemma getcol_total:
  "map_of r c \<noteq> None \<Longrightarrow> \<exists>v. getcol r c = Inr v"
  by (auto simp add: getcol_def)

lemma getcol_cell_at:
  "getcol r c = Inr v \<Longrightarrow> cell_at c r = v"
  by (auto simp add: getcol_def cell_at_def split: option.splits)

lemma column_of_Inr:
  assumes "column_of c t = Inr vs"
  shows "vs = map (cell_at c) t" and "r \<in> set t \<Longrightarrow> map_of r c = Some (cell_at c r)"
proof -
  have a: "list_all2 (\<lambda>r v. getcol r c = Inr v) t vs"
    using assms unfolding column_of_def by (rule mapM_Inr)
  have b: "getcol r c = Inr v \<Longrightarrow> v = cell_at c r \<and> map_of r c = Some (cell_at c r)" for r v
    by (auto simp add: getcol_def cell_at_def split: option.splits)
  show "vs = map (cell_at c) t"
    using a by (induction rule: list_all2_induct) (auto dest: b)
  show "r \<in> set t \<Longrightarrow> map_of r c = Some (cell_at c r)"
    using a by (induction rule: list_all2_induct) (auto dest: b)
qed

lemma column_of_total:
  "\<forall>r\<in>set t. map_of r c \<noteq> None \<Longrightarrow> column_of c t = Inr (map (cell_at c) t)"
  unfolding column_of_def by (induction t) (auto simp add: getcol_def cell_at_def)

section \<open>A run of the joins\<close>

text \<open>The ten joins, evaluated on the example tables.\<close>

lemma example_join_run:
  "evidence_join example_features example_npatlas_read example_mibig_read = Inr example_joined"
  by code_simp

section \<open>Properties of the identifier normalizer\<close>

lemma split_on_takeWhile:
  "split_on d s = takeWhile (\<lambda>c. c \<noteq> d) s # tl (split_on d s)"
  by (induction s) (auto split: list.splits)

lemma split_on_no_sep:
  "d \<notin> set s \<Longrightarrow> split_on d s = [s]"
  by (induction s) auto

lemma no_stereo_Str:
  "no_stereo (Str s) = Str (takeWhile (\<lambda>c. c \<noteq> CHR ''-'') s)"
proof -
  obtain x xs where "split_on CHR ''-'' s = x # xs" and "x = takeWhile (\<lambda>c. c \<noteq> CHR ''-'') s"
    using split_on_takeWhile [of "CHR ''-''" s] by blast
  then show ?thesis by (simp add: no_stereo_def)
qed

lemma no_stereo_cut:
  "CHR ''-'' \<notin> set a \<Longrightarrow> no_stereo (Str (a @ CHR ''-'' # b)) = Str a"
proof -
  have "CHR ''-'' \<notin> set a \<Longrightarrow> takeWhile (\<lambda>c. c \<noteq> CHR ''-'') (a @ CHR ''-'' # b) = a"
    by (induction a) auto
  then show "CHR ''-'' \<notin> set a \<Longrightarrow> no_stereo (Str (a @ CHR ''-'' # b)) = Str a"
    by (simp add: no_stereo_Str)
qed

lemma no_stereo_idempotent:
  "no_stereo (no_stereo v) = no_stereo v"
proof (cases v)
  case (Str s)
  have "CHR ''-'' \<notin> set (takeWhile (\<lambda>c. c \<noteq> CHR ''-'') s)"
    by (auto dest: set_takeWhileD)
  then have "takeWhile (\<lambda>c. c \<noteq> CHR ''-'') (takeWhile (\<lambda>c. c \<noteq> CHR ''-'') s)
      = takeWhile (\<lambda>c. c \<noteq> CHR ''-'') s"
    by simp
  with Str show ?thesis by (simp add: no_stereo_Str)
qed (simp_all add: no_stereo_def)

lemma no_stereo_object:
  "object_dtype vs \<Longrightarrow> object_dtype (map no_stereo vs)"
proof -
  have "is_str v \<Longrightarrow> is_str (no_stereo v)" for v
    by (cases v) (simp_all add: no_stereo_Str)
  then show "object_dtype vs \<Longrightarrow> object_dtype (map no_stereo vs)"
    by (auto simp add: object_dtype_def)
qed

lemma prepare_inchikey_column:
  assumes "prepare_inchikey column t = Inr t'" and "i < length t"
  shows "getcol (t' ! i) (column @ ''_no_stereo'') = Inr (no_stereo (cell_at column (t ! i)))"
    and "getcol (t' ! i) column = getcol (t ! i) column"
proof -
  from assms(1) obtain vs where c: "column_of column t = Inr vs"
    and s: "set_column (column @ ''_no_stereo'') (map no_stereo vs) t = Inr t'"
    by (auto simp add: prepare_inchikey_def ebind_Inr split: if_splits)
  have u: "t' ! i = AList.update (column @ ''_no_stereo'') (map no_stereo vs ! i) (t ! i)"
    using set_column_Inr(3) [OF s assms(2)] .
  have v: "map no_stereo vs ! i = no_stereo (cell_at column (t ! i))"
    using column_of_Inr(1) [OF c] assms(2) by simp
  show "getcol (t' ! i) (column @ ''_no_stereo'') = Inr (no_stereo (cell_at column (t ! i)))"
    by (simp add: u v getcol_update)
  show "getcol (t' ! i) column = getcol (t ! i) column"
    by (simp add: u getcol_update)
qed

lemma prepare_inchikey_length:
  "prepare_inchikey column t = Inr t' \<Longrightarrow> length t' = length t"
  by (auto simp add: prepare_inchikey_def ebind_Inr split: if_splits dest!: set_column_Inr(1))

text \<open>The normalizer returns exactly on the tables that have the column in every row, as
  an object column.\<close>

lemma prepare_inchikey_returns:
  "(\<exists>t'. prepare_inchikey column t = Inr t')
     \<longleftrightarrow> (\<forall>r\<in>set t. map_of r column \<noteq> None) \<and> object_dtype (map (cell_at column) t)"
proof
  assume "\<exists>t'. prepare_inchikey column t = Inr t'"
  then obtain t' vs where c: "column_of column t = Inr vs" and o: "object_dtype vs"
    by (auto simp add: prepare_inchikey_def ebind_Inr split: if_splits)
  show "(\<forall>r\<in>set t. map_of r column \<noteq> None) \<and> object_dtype (map (cell_at column) t)"
    using column_of_Inr [OF c] o by auto
next
  assume a: "(\<forall>r\<in>set t. map_of r column \<noteq> None) \<and> object_dtype (map (cell_at column) t)"
  then have "column_of column t = Inr (map (cell_at column) t)"
    by (simp add: column_of_total)
  moreover have "\<exists>t'. set_column (column @ ''_no_stereo'')
      (map no_stereo (map (cell_at column) t)) t = Inr t'"
    by (rule set_column_total) simp
  ultimately show "\<exists>t'. prepare_inchikey column t = Inr t'"
    using a by (simp add: prepare_inchikey_def ebind_def)
qed

lemma prepare_inchikey_again:
  assumes "prepare_inchikey column t = Inr t'"
  shows "\<exists>t''. prepare_inchikey (column @ ''_no_stereo'') t' = Inr t''"
proof -
  from assms obtain vs where c: "column_of column t = Inr vs" and o: "object_dtype vs"
    by (auto simp add: prepare_inchikey_def ebind_Inr split: if_splits)
  have len: "length t' = length t"
    using assms by (rule prepare_inchikey_length)
  have g: "getcol (t' ! i) (column @ ''_no_stereo'') = Inr (no_stereo (cell_at column (t ! i)))"
    if "i < length t" for i
    using prepare_inchikey_column(1) [OF assms that] .
  have m: "\<forall>r\<in>set t'. map_of r (column @ ''_no_stereo'') \<noteq> None"
  proof
    fix r
    assume "r \<in> set t'"
    then obtain i where "i < length t" and "r = t' ! i"
      using len by (auto simp add: in_set_conv_nth)
    then show "map_of r (column @ ''_no_stereo'') \<noteq> None"
      using g [of i] by (auto simp add: getcol_def split: option.splits)
  qed
  have "map (cell_at (column @ ''_no_stereo'')) t' = map no_stereo (map (cell_at column) t)"
    using len g by (auto simp add: list_eq_iff_nth_eq dest: getcol_cell_at)
  then have "object_dtype (map (cell_at (column @ ''_no_stereo'')) t')"
    using no_stereo_object [OF o] column_of_Inr(1) [OF c] by simp
  then show ?thesis
    using m prepare_inchikey_returns [of "column @ ''_no_stereo''" t'] by blast
qed

lemma example_identifiers_run:
  "prepare_inchikey ''GNPS_LIB_Consol_InChIKey'' example_identifiers = Inr example_normalized"
  by code_simp

lemma example_normalized_run:
  "prepare_inchikey (''GNPS_LIB_Consol_InChIKey'' @ ''_no_stereo'') example_normalized
     = Inr example_normalized_again"
  by code_simp

text \<open>
  C9, as the code has it. On a table in which the column holds a string in some row, the
  identifier normalizer returns; the new column holds, for a string, the part before the
  first \<^verbatim>\<open>-\<close> (the whole string when it holds none) and missing for a missing
  identifier, the column itself is unchanged, and normalizing the new column returns and
  changes nothing. It returns on no other table with rows: when the column is missing
  in every row it raises \<^verbatim>\<open>AttributeError\<close>.
\<close>

theorem normalizer_prefix_idempotent:
  "(prepare_inchikey column t = Inr t' \<and> i < length t \<longrightarrow>
      (\<forall>s. getcol (t ! i) column = Inr (Str s) \<longrightarrow>
           getcol (t' ! i) (column @ ''_no_stereo'')
             = Inr (Str (takeWhile (\<lambda>c. c \<noteq> CHR ''-'') s)))
      \<and> (\<forall>a b. getcol (t ! i) column = Inr (Str (a @ CHR ''-'' # b)) \<and> CHR ''-'' \<notin> set a \<longrightarrow>
           getcol (t' ! i) (column @ ''_no_stereo'') = Inr (Str a))
      \<and> (getcol (t ! i) column = Inr NaN \<longrightarrow>
           getcol (t' ! i) (column @ ''_no_stereo'') = Inr NaN)
      \<and> getcol (t' ! i) column = getcol (t ! i) column
      \<and> (\<exists>t''. prepare_inchikey (column @ ''_no_stereo'') t' = Inr t'')
      \<and> (\<forall>t''. prepare_inchikey (column @ ''_no_stereo'') t' = Inr t'' \<longrightarrow>
           getcol (t'' ! i) ((column @ ''_no_stereo'') @ ''_no_stereo'')
             = getcol (t' ! i) (column @ ''_no_stereo'')))
   \<and> ((\<exists>t'. prepare_inchikey column t = Inr t')
        \<longleftrightarrow> (\<forall>r\<in>set t. map_of r column \<noteq> None) \<and> object_dtype (map (cell_at column) t))
   \<and> (t \<noteq> [] \<and> (\<forall>r\<in>set t. map_of r column = Some NaN) \<longrightarrow>
        prepare_inchikey column t = Inl AttributeError)"
proof -
  have a: "(\<forall>s. getcol (t ! i) column = Inr (Str s) \<longrightarrow>
           getcol (t' ! i) (column @ ''_no_stereo'')
             = Inr (Str (takeWhile (\<lambda>c. c \<noteq> CHR ''-'') s)))
      \<and> (\<forall>a b. getcol (t ! i) column = Inr (Str (a @ CHR ''-'' # b)) \<and> CHR ''-'' \<notin> set a \<longrightarrow>
           getcol (t' ! i) (column @ ''_no_stereo'') = Inr (Str a))
      \<and> (getcol (t ! i) column = Inr NaN \<longrightarrow>
           getcol (t' ! i) (column @ ''_no_stereo'') = Inr NaN)
      \<and> getcol (t' ! i) column = getcol (t ! i) column
      \<and> (\<exists>t''. prepare_inchikey (column @ ''_no_stereo'') t' = Inr t'')
      \<and> (\<forall>t''. prepare_inchikey (column @ ''_no_stereo'') t' = Inr t'' \<longrightarrow>
           getcol (t'' ! i) ((column @ ''_no_stereo'') @ ''_no_stereo'')
             = getcol (t' ! i) (column @ ''_no_stereo''))"
    if p: "prepare_inchikey column t = Inr t'" and i: "i < length t"
  proof -
    note g = prepare_inchikey_column [OF p i]
    have i': "i < length t'"
      using i prepare_inchikey_length [OF p] by simp
    have s: "getcol (t' ! i) (column @ ''_no_stereo'')
        = Inr (Str (takeWhile (\<lambda>c. c \<noteq> CHR ''-'') s))"
      if "getcol (t ! i) column = Inr (Str s)" for s
      using g(1) getcol_cell_at [OF that] by (simp add: no_stereo_Str)
    have c: "getcol (t' ! i) (column @ ''_no_stereo'') = Inr (Str a)"
      if "getcol (t ! i) column = Inr (Str (a @ CHR ''-'' # b))" and "CHR ''-'' \<notin> set a" for a b
      using g(1) getcol_cell_at [OF that(1)] that(2) by (simp add: no_stereo_cut)
    have n: "getcol (t' ! i) (column @ ''_no_stereo'') = Inr NaN"
      if "getcol (t ! i) column = Inr NaN"
      using g(1) getcol_cell_at [OF that] by (simp add: no_stereo_def)
    have d: "getcol (t'' ! i) ((column @ ''_no_stereo'') @ ''_no_stereo'')
        = getcol (t' ! i) (column @ ''_no_stereo'')"
      if q: "prepare_inchikey (column @ ''_no_stereo'') t' = Inr t''" for t''
      using prepare_inchikey_column(1) [OF q i'] g(1)
      by (simp add: getcol_cell_at [OF g(1)] no_stereo_idempotent)
    show ?thesis
      using s c n d g(2) prepare_inchikey_again [OF p] by blast
  qed
  have b: "prepare_inchikey column t = Inl AttributeError"
    if "t \<noteq> []" and m: "\<forall>r\<in>set t. map_of r column = Some NaN"
  proof -
    have "column_of column t = Inr (map (cell_at column) t)"
      using m by (intro column_of_total) simp
    moreover have "\<not> object_dtype (map (cell_at column) t)"
      using that by (auto simp add: object_dtype_def cell_at_def)
    ultimately show ?thesis
      by (simp add: prepare_inchikey_def ebind_def)
  qed
  show ?thesis
    using a b prepare_inchikey_returns [of column t] by blast
qed

theorem normalizer_prefix_idempotent_witness:
  "prepare_inchikey ''GNPS_LIB_Consol_InChIKey'' example_identifiers = Inr example_normalized
   \<and> 0 < length example_identifiers
   \<and> 1 < length example_identifiers
   \<and> getcol (example_identifiers ! 0) ''GNPS_LIB_Consol_InChIKey''
       = Inr (Str (''ABCDEFGHIJKLMN'' @ CHR ''-'' # ''UHFFFAOYSA-N''))
   \<and> CHR ''-'' \<notin> set ''ABCDEFGHIJKLMN''
   \<and> getcol (example_normalized ! 0) (''GNPS_LIB_Consol_InChIKey'' @ ''_no_stereo'')
       = Inr (Str ''ABCDEFGHIJKLMN'')
   \<and> getcol (example_identifiers ! 1) ''GNPS_LIB_Consol_InChIKey'' = Inr NaN
   \<and> getcol (example_normalized ! 1) (''GNPS_LIB_Consol_InChIKey'' @ ''_no_stereo'') = Inr NaN
   \<and> prepare_inchikey (''GNPS_LIB_Consol_InChIKey'' @ ''_no_stereo'') example_normalized
       = Inr example_normalized_again
   \<and> getcol (example_normalized_again ! 0)
         ((''GNPS_LIB_Consol_InChIKey'' @ ''_no_stereo'') @ ''_no_stereo'')
       = Inr (Str ''ABCDEFGHIJKLMN'')
   \<and> example_unannotated \<noteq> []
   \<and> prepare_inchikey ''DEREP_Consol_InChIKey'' example_unannotated = Inl AttributeError"
proof -
  note n = normalizer_prefix_idempotent
    [of "''GNPS_LIB_Consol_InChIKey''" example_identifiers example_normalized]
  have l: "0 < length example_identifiers" "1 < length example_identifiers"
    by (simp_all add: example_identifiers_def)
  have g: "getcol (example_identifiers ! 0) ''GNPS_LIB_Consol_InChIKey''
       = Inr (Str (''ABCDEFGHIJKLMN'' @ CHR ''-'' # ''UHFFFAOYSA-N''))"
    "getcol (example_identifiers ! 1) ''GNPS_LIB_Consol_InChIKey'' = Inr NaN"
    by (simp_all add: example_identifiers_def getcol_def)
  have h: "CHR ''-'' \<notin> set ''ABCDEFGHIJKLMN''"
    by simp
  note n0 = n [of 0, THEN conjunct1, THEN mp, OF conjI [OF example_identifiers_run l(1)]]
  note n1 = n [of 1, THEN conjunct1, THEN mp, OF conjI [OF example_identifiers_run l(2)]]
  have c: "getcol (example_normalized ! 0) (''GNPS_LIB_Consol_InChIKey'' @ ''_no_stereo'')
       = Inr (Str ''ABCDEFGHIJKLMN'')"
    using n0 [THEN conjunct2, THEN conjunct1, rule_format, OF conjI [OF g(1) h]] .
  have m: "getcol (example_normalized ! 1) (''GNPS_LIB_Consol_InChIKey'' @ ''_no_stereo'') = Inr NaN"
    using n1 [THEN conjunct2, THEN conjunct2, THEN conjunct1, THEN mp, OF g(2)] .
  have d: "getcol (example_normalized_again ! 0)
         ((''GNPS_LIB_Consol_InChIKey'' @ ''_no_stereo'') @ ''_no_stereo'')
       = Inr (Str ''ABCDEFGHIJKLMN'')"
    using n0 [THEN conjunct2, THEN conjunct2, THEN conjunct2, THEN conjunct2, THEN conjunct2,
        rule_format, OF example_normalized_run] c
    by (rule trans)
  have e: "example_unannotated \<noteq> []"
    by (simp add: example_unannotated_def)
  have u: "\<forall>r\<in>set example_unannotated. map_of r ''DEREP_Consol_InChIKey'' = Some NaN"
    by (simp add: example_unannotated_def)
  have f: "prepare_inchikey ''DEREP_Consol_InChIKey'' example_unannotated = Inl AttributeError"
    using normalizer_prefix_idempotent [of "''DEREP_Consol_InChIKey''" example_unannotated,
        THEN conjunct2, THEN conjunct2, THEN mp, OF conjI [OF e u]] .
  show ?thesis
    by (simp only: example_identifiers_run example_normalized_run l g h c m d e f simp_thms)
qed

theorem normalizer_prefix_idempotent_counterexample:
  "getcol (example_unannotated ! 0) ''DEREP_Consol_InChIKey'' = Inr NaN
   \<and> getcol (example_unannotated ! 1) ''DEREP_Consol_InChIKey'' = Inr NaN
   \<and> prepare_inchikey ''DEREP_Consol_InChIKey'' example_unannotated = Inl AttributeError
   \<and> (\<nexists>t'. prepare_inchikey ''DEREP_Consol_InChIKey'' example_unannotated = Inr t')"
proof -
  have "prepare_inchikey ''DEREP_Consol_InChIKey'' example_unannotated = Inl AttributeError"
    by code_simp
  moreover have "getcol (example_unannotated ! 0) ''DEREP_Consol_InChIKey'' = Inr NaN"
    "getcol (example_unannotated ! 1) ''DEREP_Consol_InChIKey'' = Inr NaN"
    by (simp_all add: example_unannotated_def getcol_def)
  ultimately show ?thesis by simp
qed

section \<open>Properties of the confidence tiers\<close>

lemma yes_if_any_Inr:
  "yes_if_any r cs = Inr v \<Longrightarrow> v = marker (\<exists>c\<in>set cs. present r c)"
proof (induction cs)
  case Nil
  then show ?case by (simp add: marker_def)
next
  case (Cons c cs)
  then show ?case
    by (auto simp add: marker_def dest: getcol_present split: sum.splits if_splits)
qed

lemma row_levels_Inr:
  assumes "row_levels r = Inr ls"
  shows "level_2 ls = marker (\<exists>c\<in>set level_2_evidence. present r c)"
    and "level_3 ls = marker (\<exists>c\<in>set level_3_evidence. present r c)"
    and "level_4 ls = marker (\<exists>c\<in>set level_4_evidence. present r c)"
    and "level_2_3 ls = marker (\<exists>c\<in>set level_2_3_evidence. present r c)"
    and "level_2_3_4 ls = marker (\<exists>c\<in>set level_2_3_4_evidence. present r c)"
  using assms by (auto simp add: row_levels_def ebind_Inr dest!: yes_if_any_Inr)

lemma is_microbial_level_row:
  assumes "is_microbial_level t = Inr t'" and "i < length t"
  obtains ls where "row_levels (t ! i) = Inr ls"
    and "getcol (t' ! i) ''is_microbial_level_2'' = Inr (level_2 ls)"
    and "getcol (t' ! i) ''is_microbial_level_3'' = Inr (level_3 ls)"
    and "getcol (t' ! i) ''is_microbial_level_4'' = Inr (level_4 ls)"
    and "getcol (t' ! i) ''is_microbial_level_2_3'' = Inr (level_2_3 ls)"
    and "getcol (t' ! i) ''is_microbial_level_2_3_4'' = Inr (level_2_3_4 ls)"
proof -
  from assms(1) obtain lss t1 t2 t3 t4 where
    m: "mapM row_levels t = Inr lss"
    and s1: "set_column ''is_microbial_level_2'' (map level_2 lss) t = Inr t1"
    and s2: "set_column ''is_microbial_level_3'' (map level_3 lss) t1 = Inr t2"
    and s3: "set_column ''is_microbial_level_4'' (map level_4 lss) t2 = Inr t3"
    and s4: "set_column ''is_microbial_level_2_3'' (map level_2_3 lss) t3 = Inr t4"
    and s5: "set_column ''is_microbial_level_2_3_4'' (map level_2_3_4 lss) t4 = Inr t'"
    unfolding is_microbial_level_def ebind_Inr by blast
  have len: "length lss = length t" "length t1 = length t" "length t2 = length t"
    "length t3 = length t" "length t4 = length t"
    using mapM_length [OF m] set_column_Inr(1) [OF s1] set_column_Inr(1) [OF s2]
      set_column_Inr(1) [OF s3] set_column_Inr(1) [OF s4] by simp_all
  have r: "row_levels (t ! i) = Inr (lss ! i)"
    using mapM_nth [OF m assms(2)] .
  have u: "t' ! i = AList.update ''is_microbial_level_2_3_4'' (level_2_3_4 (lss ! i))
      (AList.update ''is_microbial_level_2_3'' (level_2_3 (lss ! i))
      (AList.update ''is_microbial_level_4'' (level_4 (lss ! i))
      (AList.update ''is_microbial_level_3'' (level_3 (lss ! i))
      (AList.update ''is_microbial_level_2'' (level_2 (lss ! i)) (t ! i)))))"
    using set_column_Inr(3) [OF s1, of i] set_column_Inr(3) [OF s2, of i]
      set_column_Inr(3) [OF s3, of i] set_column_Inr(3) [OF s4, of i]
      set_column_Inr(3) [OF s5, of i] len assms(2) by simp
  show thesis
    by (rule that [OF r]) (simp_all add: u getcol_update)
qed

lemma is_microbial_level_length:
  "is_microbial_level t = Inr t' \<Longrightarrow> length t' = length t"
  by (auto simp add: is_microbial_level_def ebind_Inr dest!: set_column_Inr(1))

lemma evidence_unions:
  "set level_2_3_evidence = set level_2_evidence \<union> set level_3_evidence"
  "set level_2_3_4_evidence = set level_2_evidence \<union> set level_3_evidence \<union> set level_4_evidence"
  by (auto simp add: level_2_evidence_def level_3_evidence_def level_4_evidence_def
      level_2_3_evidence_def level_2_3_4_evidence_def)

text \<open>The tier loop fails with a \<^verbatim>\<open>KeyError\<close> only: on a table whose rows have the
  ten evidence columns it returns.\<close>

lemma yes_if_any_total:
  "\<forall>c\<in>set cs. map_of r c \<noteq> None \<Longrightarrow> \<exists>v. yes_if_any r cs = Inr v"
proof (induction cs)
  case Nil
  then show ?case by simp
next
  case (Cons c cs)
  then obtain v where "getcol r c = Inr v"
    using getcol_total [of r c] by auto
  then show ?case
    using Cons by auto
qed

lemma row_levels_total:
  assumes "\<forall>c\<in>set level_2_3_4_evidence. map_of r c \<noteq> None"
  shows "\<exists>ls. row_levels r = Inr ls"
proof -
  have a: "\<exists>v. yes_if_any r cs = Inr v" if "set cs \<subseteq> set level_2_3_4_evidence" for cs
    using that assms by (intro yes_if_any_total) auto
  obtain l2 where "yes_if_any r level_2_evidence = Inr l2"
    using a [of level_2_evidence] by (auto simp add: evidence_unions)
  moreover obtain l3 where "yes_if_any r level_3_evidence = Inr l3"
    using a [of level_3_evidence] by (auto simp add: evidence_unions)
  moreover obtain l4 where "yes_if_any r level_4_evidence = Inr l4"
    using a [of level_4_evidence] by (auto simp add: evidence_unions)
  moreover obtain l23 where "yes_if_any r level_2_3_evidence = Inr l23"
    using a [of level_2_3_evidence] by (auto simp add: evidence_unions)
  moreover obtain l234 where "yes_if_any r level_2_3_4_evidence = Inr l234"
    using a [of level_2_3_4_evidence] by auto
  ultimately show ?thesis
    by (simp add: row_levels_def ebind_def)
qed

lemma is_microbial_level_total:
  assumes "\<forall>r\<in>set t. \<forall>c\<in>set level_2_3_4_evidence. map_of r c \<noteq> None"
  shows "\<exists>t'. is_microbial_level t = Inr t'"
proof -
  obtain ls where m: "mapM row_levels t = Inr ls"
    using mapM_total [of t row_levels] row_levels_total assms by blast
  have l: "length ls = length t"
    using m by (rule mapM_length)
  obtain t1 where t1: "set_column ''is_microbial_level_2'' (map level_2 ls) t = Inr t1"
    using set_column_total [of "map level_2 ls" t] l by auto
  obtain t2 where t2: "set_column ''is_microbial_level_3'' (map level_3 ls) t1 = Inr t2"
    using set_column_total [of "map level_3 ls" t1] l set_column_Inr(1) [OF t1] by auto
  obtain t3 where t3: "set_column ''is_microbial_level_4'' (map level_4 ls) t2 = Inr t3"
    using set_column_total [of "map level_4 ls" t2] l set_column_Inr(1) [OF t1]
      set_column_Inr(1) [OF t2] by auto
  obtain t4 where t4: "set_column ''is_microbial_level_2_3'' (map level_2_3 ls) t3 = Inr t4"
    using set_column_total [of "map level_2_3 ls" t3] l set_column_Inr(1) [OF t1]
      set_column_Inr(1) [OF t2] set_column_Inr(1) [OF t3] by auto
  obtain t5 where t5: "set_column ''is_microbial_level_2_3_4'' (map level_2_3_4 ls) t4 = Inr t5"
    using set_column_total [of "map level_2_3_4 ls" t4] l set_column_Inr(1) [OF t1]
      set_column_Inr(1) [OF t2] set_column_Inr(1) [OF t3] set_column_Inr(1) [OF t4] by auto
  show ?thesis
    using m t1 t2 t3 t4 t5 by (simp add: is_microbial_level_def ebind_def)
qed

lemma example_levels_run:
  "is_microbial_level [example_hit, example_none] = Inr example_levels"
  by code_simp

text \<open>
  C2. After the tier loop, each of the five tier columns of a row holds \<^verbatim>\<open>'YES'\<close>
  exactly when at least one of the evidence columns of that tier is present and not
  missing in the row, and holds missing, never another marker, when all of them are
  missing.
\<close>

theorem tier_marker_yes_or_missing:
  assumes "is_microbial_level t = Inr t'" and "i < length t"
  shows "getcol (t' ! i) ''is_microbial_level_2''
           = Inr (if \<exists>c\<in>set level_2_evidence. present (t ! i) c then Str ''YES'' else NaN)
       \<and> getcol (t' ! i) ''is_microbial_level_3''
           = Inr (if \<exists>c\<in>set level_3_evidence. present (t ! i) c then Str ''YES'' else NaN)
       \<and> getcol (t' ! i) ''is_microbial_level_4''
           = Inr (if \<exists>c\<in>set level_4_evidence. present (t ! i) c then Str ''YES'' else NaN)
       \<and> getcol (t' ! i) ''is_microbial_level_2_3''
           = Inr (if \<exists>c\<in>set level_2_3_evidence. present (t ! i) c then Str ''YES'' else NaN)
       \<and> getcol (t' ! i) ''is_microbial_level_2_3_4''
           = Inr (if \<exists>c\<in>set level_2_3_4_evidence. present (t ! i) c then Str ''YES'' else NaN)"
proof -
  from assms obtain ls where r: "row_levels (t ! i) = Inr ls"
    and g: "getcol (t' ! i) ''is_microbial_level_2'' = Inr (level_2 ls)"
      "getcol (t' ! i) ''is_microbial_level_3'' = Inr (level_3 ls)"
      "getcol (t' ! i) ''is_microbial_level_4'' = Inr (level_4 ls)"
      "getcol (t' ! i) ''is_microbial_level_2_3'' = Inr (level_2_3 ls)"
      "getcol (t' ! i) ''is_microbial_level_2_3_4'' = Inr (level_2_3_4 ls)"
    by (rule is_microbial_level_row)
  show ?thesis
    unfolding g row_levels_Inr [OF r] marker_def by simp
qed

theorem tier_marker_yes_or_missing_witness:
  "is_microbial_level [example_hit, example_none] = Inr example_levels
   \<and> 0 < length [example_hit, example_none]
   \<and> getcol (example_levels ! 0) ''is_microbial_level_2'' = Inr (Str ''YES'')
   \<and> getcol (example_levels ! 0) ''is_microbial_level_3'' = Inr NaN
   \<and> getcol (example_levels ! 0) ''is_microbial_level_4'' = Inr NaN
   \<and> getcol (example_levels ! 0) ''is_microbial_level_2_3'' = Inr (Str ''YES'')
   \<and> getcol (example_levels ! 0) ''is_microbial_level_2_3_4'' = Inr (Str ''YES'')
   \<and> 1 < length [example_hit, example_none]
   \<and> getcol (example_levels ! 1) ''is_microbial_level_2'' = Inr NaN
   \<and> getcol (example_levels ! 1) ''is_microbial_level_2_3_4'' = Inr NaN"
proof -
  have p: "present example_hit ''GNPS_LIB_NPA_compound_id''"
    by (simp add: present_def example_hit_def)
  have q: "\<not> (\<exists>c\<in>set level_3_evidence. present example_hit c)"
    "\<not> (\<exists>c\<in>set level_4_evidence. present example_hit c)"
    "\<not> (\<exists>c\<in>set level_2_evidence. present example_none c)"
    "\<not> (\<exists>c\<in>set level_2_3_4_evidence. present example_none c)"
    by (simp_all add: present_def example_hit_def example_none_def level_2_evidence_def
        level_3_evidence_def level_4_evidence_def level_2_3_4_evidence_def)
  have e: "\<exists>c\<in>set level_2_evidence. present example_hit c"
    "\<exists>c\<in>set level_2_3_evidence. present example_hit c"
    "\<exists>c\<in>set level_2_3_4_evidence. present example_hit c"
    using p by (simp_all add: level_2_evidence_def level_2_3_evidence_def level_2_3_4_evidence_def)
  show ?thesis
    using tier_marker_yes_or_missing [OF example_levels_run, of 0]
      tier_marker_yes_or_missing [OF example_levels_run, of 1] e q
    by (simp add: example_levels_run)
qed

text \<open>
  C1. In every row of the table made by the tier loop, \<^verbatim>\<open>is_microbial_level_2_3\<close> is
  \<^verbatim>\<open>'YES'\<close> if and only if \<^verbatim>\<open>is_microbial_level_2\<close> or \<^verbatim>\<open>is_microbial_level_3\<close>
  is, and \<^verbatim>\<open>is_microbial_level_2_3_4\<close> is \<^verbatim>\<open>'YES'\<close> if and only if one of
  \<^verbatim>\<open>is_microbial_level_2\<close>, \<^verbatim>\<open>is_microbial_level_3\<close>, \<^verbatim>\<open>is_microbial_level_4\<close> is,
  although the loop computes the combined tiers from the evidence columns again.
\<close>

theorem combined_tiers_are_unions:
  assumes "is_microbial_level t = Inr t'" and "r \<in> set t'"
  shows "(getcol r ''is_microbial_level_2_3'' = Inr (Str ''YES'')
            \<longleftrightarrow> getcol r ''is_microbial_level_2'' = Inr (Str ''YES'')
                \<or> getcol r ''is_microbial_level_3'' = Inr (Str ''YES''))
       \<and> (getcol r ''is_microbial_level_2_3_4'' = Inr (Str ''YES'')
            \<longleftrightarrow> getcol r ''is_microbial_level_2'' = Inr (Str ''YES'')
                \<or> getcol r ''is_microbial_level_3'' = Inr (Str ''YES'')
                \<or> getcol r ''is_microbial_level_4'' = Inr (Str ''YES''))"
proof -
  from assms(2) obtain i where i: "i < length t'" and ri: "r = t' ! i"
    by (auto simp add: in_set_conv_nth)
  have it: "i < length t"
    using i is_microbial_level_length [OF assms(1)] by simp
  from assms(1) it obtain ls where l: "row_levels (t ! i) = Inr ls"
    and g: "getcol (t' ! i) ''is_microbial_level_2'' = Inr (level_2 ls)"
      "getcol (t' ! i) ''is_microbial_level_3'' = Inr (level_3 ls)"
      "getcol (t' ! i) ''is_microbial_level_4'' = Inr (level_4 ls)"
      "getcol (t' ! i) ''is_microbial_level_2_3'' = Inr (level_2_3 ls)"
      "getcol (t' ! i) ''is_microbial_level_2_3_4'' = Inr (level_2_3_4 ls)"
    by (rule is_microbial_level_row)
  show ?thesis
    unfolding ri g row_levels_Inr [OF l] marker_def evidence_unions by auto
qed

theorem combined_tiers_are_unions_witness:
  "is_microbial_level [example_hit, example_none] = Inr example_levels
   \<and> example_levels ! 0 \<in> set example_levels
   \<and> getcol (example_levels ! 0) ''is_microbial_level_2_3'' = Inr (Str ''YES'')
   \<and> getcol (example_levels ! 0) ''is_microbial_level_2'' = Inr (Str ''YES'')
   \<and> getcol (example_levels ! 0) ''is_microbial_level_2_3_4'' = Inr (Str ''YES'')"
proof -
  have m: "example_levels ! 0 \<in> set example_levels"
    by (simp add: example_levels_def)
  have g: "getcol (example_levels ! 0) ''is_microbial_level_2'' = Inr (Str ''YES'')"
    by (simp add: example_levels_def example_hit_def getcol_def)
  show ?thesis
    using combined_tiers_are_unions [OF example_levels_run m] m g
    by (simp add: example_levels_run)
qed

section \<open>Properties of the tool summary\<close>



text \<open>The statements of the loop run without error on a row that has the ten identifier
  columns, each missing or a string.\<close>

lemma tool_append_total:
  "\<forall>c\<in>set (map fst tests). map_of r c = Some NaN \<or> (\<exists>s. map_of r c = Some (Str s)) \<Longrightarrow>
     \<exists>p. tool_append r tests acc = Inr p"
proof (induction tests arbitrary: acc)
  case Nil
  then show ?case by simp
next
  case (Cons a tests)
  obtain c label where a: "a = (c, label)"
    by (cases a)
  obtain el ident where acc: "acc = (el, ident)"
    by (cases acc)
  have "map_of r c = Some NaN \<or> (\<exists>s. map_of r c = Some (Str s))"
    using Cons.prems a by simp
  then show ?case
    using Cons a acc by (auto simp add: getcol_def)
qed

lemma row_tool_total:
  assumes "\<forall>c\<in>set (map fst all_tool_tests).
    map_of r c = Some NaN \<or> (\<exists>s. map_of r c = Some (Str s))"
  shows "\<exists>p. row_tool r = Inr p"
proof -
  have "map_of r ''GNPS_LIB_NPA_npaid'' = Some NaN
      \<or> (\<exists>s. map_of r ''GNPS_LIB_NPA_npaid'' = Some (Str s))"
    using assms by (simp add: all_tool_tests_def)
  then obtain p where "tool_initiating r = Inr p"
    by (auto simp add: tool_initiating_def getcol_def ebind_def)
  moreover have "\<exists>q. tool_append r tool_tests p = Inr q"
    using assms by (intro tool_append_total) (simp add: all_tool_tests_def)
  ultimately show ?thesis
    by (auto simp add: row_tool_def ebind_def)
qed

lemma split_on_piece:
  "d \<notin> set s \<Longrightarrow> split_on d (s @ d # rest) = s # split_on d rest"
  by (induction s) auto











lemma is_microbial_tool_length:
  "is_microbial_tool t = Inr t' \<Longrightarrow> length t' = length t"
  by (simp add: is_microbial_tool_def)

text \<open>No run of the notebook gets past the summary cell.\<close>

lemma notebook_stops:
  "notebook features npatlas_read mibig_read \<noteq> Inr out"
  by (auto simp add: notebook_def ebind_Inr is_microbial_tool_def)

lemma example_joined_evidence:
  "\<forall>r\<in>set example_joined. \<forall>c\<in>set level_2_3_4_evidence. map_of r c \<noteq> None"
  by code_simp

text \<open>
  C10. \<^verbatim>\<open>is_microbial_tool\<close> and \<^verbatim>\<open>is_microbial_tool_id\<close> are specified to hold a
  string in every row. In the notebook as it is stored the cell that is to assign them
  does not compile: on the example tables the ten joins and the tier loop run, the
  summary cell raises \<^verbatim>\<open>IndentationError\<close> and the run stops there, so that neither
  column is assigned.
\<close>

theorem tool_summary_not_assigned:
  "evidence_join example_features example_npatlas_read example_mibig_read = Inr example_joined
   \<and> (\<exists>t. is_microbial_level example_joined = Inr t \<and> is_microbial_tool t = Inl IndentationError)
   \<and> notebook example_features example_npatlas_read example_mibig_read = Inl IndentationError"
proof -
  obtain t where t: "is_microbial_level example_joined = Inr t"
    using is_microbial_level_total [OF example_joined_evidence] by blast
  have "notebook example_features example_npatlas_read example_mibig_read = Inl IndentationError"
    by (simp add: notebook_def example_join_run t ebind_def is_microbial_tool_def)
  then show ?thesis
    using t by (simp add: example_join_run is_microbial_tool_def)
qed

section \<open>Properties of the network propagator\<close>

lemma propagate_loop_set:
  "propagate_loop boxed column t = Inr pl \<Longrightarrow>
     set pl = {c. c \<noteq> Num (- 1)
                \<and> (\<exists>r\<in>set t. (present r column \<or> boxed) \<and> getcol r ''GNPS_componentindex'' = Inr c)}"
proof (induction t arbitrary: pl)
  case Nil
  then show ?case by simp
next
  case (Cons r rows)
  from Cons.prems obtain v where v: "getcol r column = Inr v"
    by (auto split: sum.splits)
  show ?case
  proof (cases "boxed \<or> v \<noteq> NaN")
    case False
    then have "propagate_loop boxed column rows = Inr pl" and "\<not> (present r column \<or> boxed)"
      using Cons.prems v getcol_present [OF v] by simp_all
    then show ?thesis
      using Cons.IH [of pl] by auto
  next
    case True
    then have p: "present r column \<or> boxed"
      using getcol_present [OF v] by auto
    from True Cons.prems v obtain c where c: "getcol r ''GNPS_componentindex'' = Inr c"
      by (auto split: sum.splits)
    show ?thesis
    proof (cases "c = Num (- 1)")
      case s: True
      then have "propagate_loop boxed column rows = Inr pl"
        using Cons.prems v c True by auto
      then show ?thesis
        using Cons.IH [of pl] c s by auto
    next
      case ns: False
      then obtain l where l: "propagate_loop boxed column rows = Inr l" and pl: "pl = c # l"
        using Cons.prems v c True by (auto split: sum.splits)
      show ?thesis
        using Cons.IH [OF l] pl c p ns by auto
    qed
  qed
qed

text \<open>The sources of a tier: the cluster ids, the sentinel apart, of the rows that are
  positive on the tier, and of every row when the tier column holds no string.\<close>

lemma propagate_list_set:
  "propagate_list column t = Inr pl \<Longrightarrow>
     set pl = {c. c \<noteq> Num (- 1)
                \<and> (\<exists>r\<in>set t. (present r column \<or> \<not> object_dtype (map (cell_at column) t))
                      \<and> getcol r ''GNPS_componentindex'' = Inr c)}"
  unfolding propagate_list_def by (rule propagate_loop_set)

lemma propagate_list_marked_tier:
  assumes "propagate_list column t = Inr pl" and "\<exists>r\<in>set t. is_str (cell_at column r)"
  shows "Num (- 1) \<notin> set pl"
    and "c \<in> set pl \<longleftrightarrow>
      c \<noteq> Num (- 1) \<and> (\<exists>r\<in>set t. present r column \<and> getcol r ''GNPS_componentindex'' = Inr c)"
proof -
  have "object_dtype (map (cell_at column) t)"
    using assms(2) by (auto simp add: object_dtype_def)
  then show "Num (- 1) \<notin> set pl"
    and "c \<in> set pl \<longleftrightarrow>
      c \<noteq> Num (- 1) \<and> (\<exists>r\<in>set t. present r column \<and> getcol r ''GNPS_componentindex'' = Inr c)"
    unfolding propagate_list_set [OF assms(1)] by simp_all
qed





lemma propagate_length:
  "propagate_microbial_annotation column t = Inr t' \<Longrightarrow> length t' = length t"
  by (auto simp add: propagate_microbial_annotation_def ebind_Inr dest!: set_column_Inr(1))

text \<open>The propagation returns on a table whose rows have the tier column and the
  cluster id.\<close>

lemma propagate_loop_total:
  "\<forall>r\<in>set t. map_of r column \<noteq> None \<and> map_of r ''GNPS_componentindex'' \<noteq> None \<Longrightarrow>
     \<exists>pl. propagate_loop boxed column t = Inr pl"
proof (induction t)
  case Nil
  then show ?case by simp
next
  case (Cons r rows)
  then obtain v c pl where "getcol r column = Inr v"
    and "getcol r ''GNPS_componentindex'' = Inr c"
    and "propagate_loop boxed column rows = Inr pl"
    using getcol_total [of r column] getcol_total [of r "''GNPS_componentindex''"] by auto
  then show ?case by (cases boxed) simp_all
qed

lemma propagate_list_total:
  "\<forall>r\<in>set t. map_of r column \<noteq> None \<and> map_of r ''GNPS_componentindex'' \<noteq> None \<Longrightarrow>
     \<exists>pl. propagate_list column t = Inr pl"
  unfolding propagate_list_def by (rule propagate_loop_total)

lemma propagate_total:
  assumes "\<forall>r\<in>set t. map_of r column \<noteq> None \<and> map_of r ''GNPS_componentindex'' \<noteq> None"
  shows "\<exists>t'. propagate_microbial_annotation column t = Inr t'"
proof -
  obtain pl where p: "propagate_list column t = Inr pl"
    using propagate_list_total [OF assms] by blast
  have "\<exists>y. propagate_row pl r = Inr y" if "r \<in> set t" for r
    using that assms getcol_total [of r "''GNPS_componentindex''"]
    by (auto simp add: propagate_row_def ebind_def)
  then obtain ps where m: "mapM (propagate_row pl) t = Inr ps"
    using mapM_total [of t "propagate_row pl"] by blast
  have l: "length ps = length t"
    using m by (rule mapM_length)
  obtain t1 where t1: "set_column (column @ ''_network'') (map fst ps) t = Inr t1"
    using set_column_total [of "map fst ps" t] l by auto
  obtain t2 where t2: "set_column (column @ ''_networkid'') (as_column (map snd ps)) t1 = Inr t2"
    using set_column_total [of "as_column (map snd ps)" t1] l set_column_Inr(1) [OF t1]
    by (auto simp add: as_column_length)
  show ?thesis
    using p m t1 t2 by (simp add: propagate_microbial_annotation_def ebind_def)
qed


lemma example_network_list:
  "propagate_list ''is_microbial_level_2''
     [example_sentinel, example_source, example_member, example_other, example_single]
   = Inr [Num 7]"
  by code_simp


lemma example_levels_network_run:
  "propagate_microbial_annotation ''is_microbial_level_3'' example_levels
     = Inr example_levels_network"
  by code_simp

text \<open>
  C3. The sources of a tier are specified to be the cluster ids, the sentinel apart, of
  the rows that are positive on the tier, and no others. The first loop tests
  \<^verbatim>\<open>row[column] is not np.nan\<close>; on a tier on which no row is positive the tier column
  is a column of floats and the test holds on every row. Here the tier loop gives two
  rows of cluster 7 that are both missing on the third tier, and the propagation of that
  tier takes the cluster id of both as a source and marks both rows.
\<close>

theorem propagation_sources_unmarked_tier:
  "is_microbial_level [example_hit, example_none] = Inr example_levels
   \<and> getcol (example_levels ! 0) ''is_microbial_level_3'' = Inr NaN
   \<and> getcol (example_levels ! 1) ''is_microbial_level_3'' = Inr NaN
   \<and> propagate_list ''is_microbial_level_3'' example_levels = Inr [Num 7, Num 7]
   \<and> propagate_microbial_annotation ''is_microbial_level_3'' example_levels
       = Inr example_levels_network
   \<and> getcol (example_levels_network ! 0) ''is_microbial_level_3_network'' = Inr (Str ''YES'')
   \<and> getcol (example_levels_network ! 1) ''is_microbial_level_3_network'' = Inr (Str ''YES'')"
proof -
  have l: "propagate_list ''is_microbial_level_3'' example_levels = Inr [Num 7, Num 7]"
    by code_simp
  have g: "getcol (example_levels ! 0) ''is_microbial_level_3'' = Inr NaN"
    "getcol (example_levels ! 1) ''is_microbial_level_3'' = Inr NaN"
    "getcol (example_levels_network ! 0) ''is_microbial_level_3_network'' = Inr (Str ''YES'')"
    "getcol (example_levels_network ! 1) ''is_microbial_level_3_network'' = Inr (Str ''YES'')"
    by code_simp+
  show ?thesis
    by (simp only: example_levels_run example_levels_network_run l g simp_thms)
qed






section \<open>Properties of the reference aggregator\<close>

lemma group_keys_distinct: "distinct (group_keys ks)"
  by (simp add: group_keys_def)

lemma group_keys_set: "set (group_keys ks) = {k \<in> set ks. k \<noteq> NaN}"
  by (auto simp add: group_keys_def)

lemma groupby_agg_Inr:
  assumes "groupby_agg key flds t = Inr g"
  shows "g = map (agg_row key flds t) (group_keys (map (cell_at key) t))"
    and "r \<in> set t \<Longrightarrow> map_of r key = Some (cell_at key r)"
proof -
  from assms obtain ks where k: "column_of key t = Inr ks"
    and g: "g = map (agg_row key flds t) (group_keys ks)"
    by (auto simp add: groupby_agg_def ebind_Inr)
  show "g = map (agg_row key flds t) (group_keys (map (cell_at key) t))"
    using g column_of_Inr(1) [OF k] by simp
  show "r \<in> set t \<Longrightarrow> map_of r key = Some (cell_at key r)"
    using column_of_Inr(2) [OF k] .
qed

lemma map_of_prefixed:
  "map_of (map (\<lambda>(k, v). (prefix @ k, v)) r) (prefix @ c) = map_of r c"
  by (induction r) auto

lemma cell_at_prefixed:
  "cell_at (prefix @ c) (map (\<lambda>(k, v). (prefix @ k, v)) r) = cell_at c r"
  by (simp add: cell_at_def map_of_prefixed)

lemma cell_at_agg_key:
  "cell_at key (agg_row key flds t k) = k"
  by (simp add: cell_at_def agg_row_def)

lemma map_of_agg_fields:
  "f \<in> set flds \<Longrightarrow> map_of (map (\<lambda>f. (f, h f)) flds) f = Some (h f)"
  by (induction flds) auto

lemma cell_at_agg_field:
  assumes "f \<in> set flds" and "f \<noteq> key"
  shows "cell_at f (agg_row key flds t k) = Str (join ''|'' (field_strings key f k t))"
  using assms by (simp add: cell_at_def agg_row_def field_strings_def map_of_agg_fields)

lemma aggregated_keys:
  assumes "groupby_agg key flds t = Inr g"
  shows "map (cell_at (prefix @ key)) (rename_prefix prefix g) = group_keys (map (cell_at key) t)"
  unfolding groupby_agg_Inr(1) [OF assms] rename_prefix_def
  by (simp add: cell_at_prefixed cell_at_agg_key comp_def)

lemma split_on_join:
  "xs \<noteq> [] \<Longrightarrow> \<forall>s\<in>set xs. d \<notin> set s \<Longrightarrow> split_on d (join [d] xs) = xs"
proof (induction "[d]" xs rule: join.induct)
  case 1
  then show ?case by simp
next
  case (2 x)
  then show ?case by (simp add: split_on_no_sep)
next
  case (3 x y ys)
  then show ?case by (simp add: split_on_piece)
qed

lemma aggregated_rows:
  assumes "groupby_agg key flds t = Inr g" and "key \<notin> set flds"
  shows "distinct (map (cell_at (prefix @ key)) (rename_prefix prefix g))"
    and "set (map (cell_at (prefix @ key)) (rename_prefix prefix g))
      = {k. k \<noteq> NaN \<and> (\<exists>r\<in>set t. map_of r key = Some k)}"
    and "\<forall>r\<in>set (rename_prefix prefix g). \<forall>f\<in>set flds.
      cell_at (prefix @ f) r = Str (join ''|'' (field_strings key f (cell_at (prefix @ key) r) t))
      \<and> length (field_strings key f (cell_at (prefix @ key) r) t)
          = length (group_rows key (cell_at (prefix @ key) r) t)
      \<and> group_rows key (cell_at (prefix @ key) r) t \<noteq> []
      \<and> ((\<forall>s\<in>set (field_strings key f (cell_at (prefix @ key) r) t). CHR ''|'' \<notin> set s) \<longrightarrow>
           split_on CHR ''|'' (join ''|'' (field_strings key f (cell_at (prefix @ key) r) t))
             = field_strings key f (cell_at (prefix @ key) r) t)"
proof -
  show "distinct (map (cell_at (prefix @ key)) (rename_prefix prefix g))"
    unfolding aggregated_keys [OF assms(1)] by (rule group_keys_distinct)
  have i: "cell_at key ` set t = {k. \<exists>r\<in>set t. map_of r key = Some k}"
  proof (intro set_eqI iffI)
    fix k
    assume "k \<in> cell_at key ` set t"
    then obtain r where "r \<in> set t" and "k = cell_at key r"
      by blast
    then show "k \<in> {k. \<exists>r\<in>set t. map_of r key = Some k}"
      using groupby_agg_Inr(2) [OF assms(1), of r] by auto
  next
    fix k
    assume "k \<in> {k. \<exists>r\<in>set t. map_of r key = Some k}"
    then obtain r where "r \<in> set t" and "map_of r key = Some k"
      by blast
    then show "k \<in> cell_at key ` set t"
      using groupby_agg_Inr(2) [OF assms(1), of r] by (auto simp add: image_iff)
  qed
  then show k: "set (map (cell_at (prefix @ key)) (rename_prefix prefix g))
      = {k. k \<noteq> NaN \<and> (\<exists>r\<in>set t. map_of r key = Some k)}"
    unfolding aggregated_keys [OF assms(1)] group_keys_set by auto
  show "\<forall>r\<in>set (rename_prefix prefix g). \<forall>f\<in>set flds.
      cell_at (prefix @ f) r = Str (join ''|'' (field_strings key f (cell_at (prefix @ key) r) t))
      \<and> length (field_strings key f (cell_at (prefix @ key) r) t)
          = length (group_rows key (cell_at (prefix @ key) r) t)
      \<and> group_rows key (cell_at (prefix @ key) r) t \<noteq> []
      \<and> ((\<forall>s\<in>set (field_strings key f (cell_at (prefix @ key) r) t). CHR ''|'' \<notin> set s) \<longrightarrow>
           split_on CHR ''|'' (join ''|'' (field_strings key f (cell_at (prefix @ key) r) t))
             = field_strings key f (cell_at (prefix @ key) r) t)"
  proof (intro ballI)
    fix r f
    assume r: "r \<in> set (rename_prefix prefix g)" and f: "f \<in> set flds"
    let ?k = "cell_at (prefix @ key) r"
    from r obtain k where "r = map (\<lambda>(k, v). (prefix @ k, v)) (agg_row key flds t k)"
      unfolding groupby_agg_Inr(1) [OF assms(1)] rename_prefix_def by auto
    moreover have "f \<noteq> key"
      using f assms(2) by auto
    ultimately have a: "cell_at (prefix @ f) r = Str (join ''|'' (field_strings key f ?k t))"
      using f by (simp add: cell_at_prefixed cell_at_agg_key cell_at_agg_field comp_def)
    have "?k \<in> set (map (cell_at (prefix @ key)) (rename_prefix prefix g))"
      using r by simp
    then obtain l where "l \<in> set t" and "map_of l key = Some ?k"
      unfolding k by blast
    then have n: "group_rows key ?k t \<noteq> []"
      by (auto simp add: group_rows_def filter_empty_conv)
    have b: "length (field_strings key f ?k t) = length (group_rows key ?k t)"
      by (simp add: field_strings_def)
    then have "field_strings key f ?k t \<noteq> []"
      using n by auto
    then have c: "(\<forall>s\<in>set (field_strings key f ?k t). CHR ''|'' \<notin> set s) \<longrightarrow>
        split_on CHR ''|'' (join ''|'' (field_strings key f ?k t)) = field_strings key f ?k t"
      using split_on_join [of "field_strings key f ?k t" "CHR ''|''"] by simp
    show "cell_at (prefix @ f) r = Str (join ''|'' (field_strings key f ?k t))
      \<and> length (field_strings key f ?k t) = length (group_rows key ?k t)
      \<and> group_rows key ?k t \<noteq> []
      \<and> ((\<forall>s\<in>set (field_strings key f ?k t). CHR ''|'' \<notin> set s) \<longrightarrow>
           split_on CHR ''|'' (join ''|'' (field_strings key f ?k t)) = field_strings key f ?k t)"
      using a b n c by (intro conjI)
  qed
qed

lemma npatlas_key_fresh: "npatlas_key \<notin> set npatlas_fields"
  by (simp add: npatlas_key_def npatlas_fields_def)

lemma mibig_key_fresh: "mibig_key \<notin> set mibig_fields"
  by (simp add: mibig_key_def mibig_fields_def)

lemma example_npatlas2_run:
  "npatlas2 ''GNPS_LIB_'' example_npatlas = Inr example_npatlas2"
  by code_simp

lemma example_mibig2_run:
  "mibig2 ''CSI_'' example_mibig = Inr example_mibig2"
  by code_simp

lemma example_pipe2_run:
  "npatlas2 ''GNPS_LIB_'' example_pipe = Inr example_pipe2"
  by code_simp

text \<open>
  C7, as the code has it. The aggregated reference of either database has exactly one
  row for each key that is not missing: its keys are distinct and are the non-missing
  keys of the reference. Each metadata field of such a row is the strings of the values
  of that field in the reference rows with that key, in table order, joined with
  \<^verbatim>\<open>|\<close>; there is at least one such row, and a missing value gives the string
  \<^verbatim>\<open>nan\<close>. When none of the strings of a field holds a pipe itself, splitting the field
  at the pipes gives these strings back, one segment for each row of the group; a value
  that holds a pipe makes more segments, so that the fields of a group need not have the
  same number of segments.
\<close>

theorem aggregated_reference:
  "(npatlas2 prefix npatlas = Inr g \<longrightarrow>
      distinct (map (cell_at (prefix @ npatlas_key)) g)
      \<and> set (map (cell_at (prefix @ npatlas_key)) g)
          = {k. k \<noteq> NaN \<and> (\<exists>r\<in>set npatlas. map_of r npatlas_key = Some k)}
      \<and> (\<forall>r\<in>set g. \<forall>f\<in>set npatlas_fields.
            cell_at (prefix @ f) r
              = Str (join ''|''
                  (field_strings npatlas_key f (cell_at (prefix @ npatlas_key) r) npatlas))
            \<and> length (field_strings npatlas_key f (cell_at (prefix @ npatlas_key) r) npatlas)
                = length (group_rows npatlas_key (cell_at (prefix @ npatlas_key) r) npatlas)
            \<and> group_rows npatlas_key (cell_at (prefix @ npatlas_key) r) npatlas \<noteq> []
            \<and> ((\<forall>s\<in>set (field_strings npatlas_key f (cell_at (prefix @ npatlas_key) r) npatlas).
                    CHR ''|'' \<notin> set s) \<longrightarrow>
                 split_on CHR ''|'' (join ''|''
                     (field_strings npatlas_key f (cell_at (prefix @ npatlas_key) r) npatlas))
                   = field_strings npatlas_key f (cell_at (prefix @ npatlas_key) r) npatlas)))
   \<and> (mibig2 prefix mibig = Inr h \<longrightarrow>
      distinct (map (cell_at (prefix @ mibig_key)) h)
      \<and> set (map (cell_at (prefix @ mibig_key)) h)
          = {k. k \<noteq> NaN \<and> (\<exists>r\<in>set mibig. map_of r mibig_key = Some k)}
      \<and> (\<forall>r\<in>set h. \<forall>f\<in>set mibig_fields.
            cell_at (prefix @ f) r
              = Str (join ''|'' (field_strings mibig_key f (cell_at (prefix @ mibig_key) r) mibig))
            \<and> length (field_strings mibig_key f (cell_at (prefix @ mibig_key) r) mibig)
                = length (group_rows mibig_key (cell_at (prefix @ mibig_key) r) mibig)
            \<and> group_rows mibig_key (cell_at (prefix @ mibig_key) r) mibig \<noteq> []
            \<and> ((\<forall>s\<in>set (field_strings mibig_key f (cell_at (prefix @ mibig_key) r) mibig).
                    CHR ''|'' \<notin> set s) \<longrightarrow>
                 split_on CHR ''|'' (join ''|''
                     (field_strings mibig_key f (cell_at (prefix @ mibig_key) r) mibig))
                   = field_strings mibig_key f (cell_at (prefix @ mibig_key) r) mibig)))
   \<and> py_str float NaN = ''nan''"
proof -
  have a: "distinct (map (cell_at (prefix @ npatlas_key)) g)
      \<and> set (map (cell_at (prefix @ npatlas_key)) g)
          = {k. k \<noteq> NaN \<and> (\<exists>r\<in>set npatlas. map_of r npatlas_key = Some k)}
      \<and> (\<forall>r\<in>set g. \<forall>f\<in>set npatlas_fields.
            cell_at (prefix @ f) r
              = Str (join ''|''
                  (field_strings npatlas_key f (cell_at (prefix @ npatlas_key) r) npatlas))
            \<and> length (field_strings npatlas_key f (cell_at (prefix @ npatlas_key) r) npatlas)
                = length (group_rows npatlas_key (cell_at (prefix @ npatlas_key) r) npatlas)
            \<and> group_rows npatlas_key (cell_at (prefix @ npatlas_key) r) npatlas \<noteq> []
            \<and> ((\<forall>s\<in>set (field_strings npatlas_key f (cell_at (prefix @ npatlas_key) r) npatlas).
                    CHR ''|'' \<notin> set s) \<longrightarrow>
                 split_on CHR ''|'' (join ''|''
                     (field_strings npatlas_key f (cell_at (prefix @ npatlas_key) r) npatlas))
                   = field_strings npatlas_key f (cell_at (prefix @ npatlas_key) r) npatlas))"
    if r: "npatlas2 prefix npatlas = Inr g"
  proof -
    from r obtain g' where g': "groupby_agg npatlas_key npatlas_fields npatlas = Inr g'"
      and e: "g = rename_prefix prefix g'"
      by (auto simp add: npatlas2_def ebind_Inr)
    show ?thesis
      unfolding e by (intro conjI aggregated_rows [OF g' npatlas_key_fresh])
  qed
  have m: "distinct (map (cell_at (prefix @ mibig_key)) h)
      \<and> set (map (cell_at (prefix @ mibig_key)) h)
          = {k. k \<noteq> NaN \<and> (\<exists>r\<in>set mibig. map_of r mibig_key = Some k)}
      \<and> (\<forall>r\<in>set h. \<forall>f\<in>set mibig_fields.
            cell_at (prefix @ f) r
              = Str (join ''|'' (field_strings mibig_key f (cell_at (prefix @ mibig_key) r) mibig))
            \<and> length (field_strings mibig_key f (cell_at (prefix @ mibig_key) r) mibig)
                = length (group_rows mibig_key (cell_at (prefix @ mibig_key) r) mibig)
            \<and> group_rows mibig_key (cell_at (prefix @ mibig_key) r) mibig \<noteq> []
            \<and> ((\<forall>s\<in>set (field_strings mibig_key f (cell_at (prefix @ mibig_key) r) mibig).
                    CHR ''|'' \<notin> set s) \<longrightarrow>
                 split_on CHR ''|'' (join ''|''
                     (field_strings mibig_key f (cell_at (prefix @ mibig_key) r) mibig))
                   = field_strings mibig_key f (cell_at (prefix @ mibig_key) r) mibig))"
    if r: "mibig2 prefix mibig = Inr h"
  proof -
    from r obtain h' where h': "groupby_agg mibig_key mibig_fields mibig = Inr h'"
      and e: "h = rename_prefix prefix h'"
      by (auto simp add: mibig2_def ebind_Inr)
    show ?thesis
      unfolding e by (intro conjI aggregated_rows [OF h' mibig_key_fresh])
  qed
  have s: "py_str float NaN = ''nan''"
    by (simp add: py_str_def)
  show ?thesis
    by (intro conjI impI a m s)
qed

theorem aggregated_reference_witness:
  "npatlas2 ''GNPS_LIB_'' example_npatlas = Inr example_npatlas2
   \<and> map (cell_at (''GNPS_LIB_'' @ npatlas_key)) example_npatlas2 = [Str ''ABCDEFGHIJKLMN'']
   \<and> example_npatlas2 ! 0 \<in> set example_npatlas2
   \<and> ''NPA_origin_species'' \<in> set npatlas_fields
   \<and> field_strings npatlas_key ''NPA_origin_species'' (Str ''ABCDEFGHIJKLMN'') example_npatlas
       = [''albus'', ''nan'']
   \<and> CHR ''|'' \<notin> set ''albus'' \<and> CHR ''|'' \<notin> set ''nan''
   \<and> cell_at (''GNPS_LIB_'' @ ''NPA_origin_species'') (example_npatlas2 ! 0) = Str ''albus|nan''
   \<and> split_on CHR ''|'' ''albus|nan'' = [''albus'', ''nan'']
   \<and> mibig2 ''CSI_'' example_mibig = Inr example_mibig2
   \<and> map (cell_at (''CSI_'' @ mibig_key)) example_mibig2 = [Str ''OPQRSTUVWXYZAB'']
   \<and> example_mibig2 ! 0 \<in> set example_mibig2
   \<and> ''MIBIG_ncbi_tax_id'' \<in> set mibig_fields
   \<and> field_strings mibig_key ''MIBIG_ncbi_tax_id'' (Str ''OPQRSTUVWXYZAB'') example_mibig
       = [''1888.0'', ''nan'']
   \<and> cell_at (''CSI_'' @ ''MIBIG_ncbi_tax_id'') (example_mibig2 ! 0) = Str ''1888.0|nan''
   \<and> split_on CHR ''|'' ''1888.0|nan'' = [''1888.0'', ''nan'']"
proof -
  note a = aggregated_reference
    [of "''GNPS_LIB_''" example_npatlas example_npatlas2 example_mibig example_mibig2]
  note n = a [THEN conjunct1, THEN mp, OF example_npatlas2_run, THEN conjunct2, THEN conjunct2]
  note b = aggregated_reference
    [of "''CSI_''" example_npatlas example_npatlas2 example_mibig example_mibig2]
  note m = b [THEN conjunct2, THEN conjunct1, THEN mp, OF example_mibig2_run,
    THEN conjunct2, THEN conjunct2]
  have i: "example_npatlas2 ! 0 \<in> set example_npatlas2" "''NPA_origin_species'' \<in> set npatlas_fields"
    "example_mibig2 ! 0 \<in> set example_mibig2" "''MIBIG_ncbi_tax_id'' \<in> set mibig_fields"
    by (simp_all add: example_npatlas2_def example_mibig2_def npatlas_fields_def mibig_fields_def)
  have k: "map (cell_at (''GNPS_LIB_'' @ npatlas_key)) example_npatlas2 = [Str ''ABCDEFGHIJKLMN'']"
    "map (cell_at (''CSI_'' @ mibig_key)) example_mibig2 = [Str ''OPQRSTUVWXYZAB'']"
    by code_simp code_simp
  have c: "cell_at (''GNPS_LIB_'' @ npatlas_key) (example_npatlas2 ! 0) = Str ''ABCDEFGHIJKLMN''"
    "cell_at (''CSI_'' @ mibig_key) (example_mibig2 ! 0) = Str ''OPQRSTUVWXYZAB''"
    by code_simp code_simp
  have e: "field_strings npatlas_key ''NPA_origin_species'' (Str ''ABCDEFGHIJKLMN'') example_npatlas
       = [''albus'', ''nan'']"
    "field_strings mibig_key ''MIBIG_ncbi_tax_id'' (Str ''OPQRSTUVWXYZAB'') example_mibig
       = [''1888.0'', ''nan'']"
    by code_simp code_simp
  have j: "join ''|'' [''albus'', ''nan''] = ''albus|nan''"
    "join ''|'' [''1888.0'', ''nan''] = ''1888.0|nan''"
    by simp_all
  have p: "CHR ''|'' \<notin> set ''albus''" "CHR ''|'' \<notin> set ''nan''" "CHR ''|'' \<notin> set ''1888.0''"
    by simp_all
  note n' = n [rule_format, OF i(1,2), unfolded c e j]
  note m' = m [rule_format, OF i(3,4), unfolded c e j]
  note f = n' [THEN conjunct1] m' [THEN conjunct1]
  have s: "split_on CHR ''|'' ''albus|nan'' = [''albus'', ''nan'']"
    "split_on CHR ''|'' ''1888.0|nan'' = [''1888.0'', ''nan'']"
    using n' m' p by simp_all
  show ?thesis
    by (simp only: example_npatlas2_run example_mibig2_run i k e f s p simp_thms)
qed

theorem aggregated_reference_counterexample:
  "npatlas2 ''GNPS_LIB_'' example_pipe = Inr example_pipe2
   \<and> cell_at ''GNPS_LIB_NPA_npaid'' (example_pipe2 ! 0) = Str ''NPA12345|NPA67890''
   \<and> cell_at ''GNPS_LIB_NPA_compound_names'' (example_pipe2 ! 0)
       = Str ''Examplamycin A|A1|Examplamycin B''
   \<and> length (split_on CHR ''|'' ''NPA12345|NPA67890'') = 2
   \<and> length (split_on CHR ''|'' ''Examplamycin A|A1|Examplamycin B'') = 3"
proof -
  have c: "cell_at ''GNPS_LIB_NPA_npaid'' (example_pipe2 ! 0) = Str ''NPA12345|NPA67890''"
    "cell_at ''GNPS_LIB_NPA_compound_names'' (example_pipe2 ! 0)
       = Str ''Examplamycin A|A1|Examplamycin B''"
    by code_simp code_simp
  have s: "split_on CHR ''|'' ''NPA12345|NPA67890'' = [''NPA12345'', ''NPA67890'']"
    "split_on CHR ''|'' ''Examplamycin A|A1|Examplamycin B''
       = [''Examplamycin A'', ''A1'', ''Examplamycin B'']"
    by code_simp code_simp
  show ?thesis
    unfolding s by (simp add: example_pipe2_run c)
qed

section \<open>Properties of the evidence joiner\<close>

lemma filter_key_le1:
  "distinct (map f xs) \<Longrightarrow> length (filter (\<lambda>x. f x = y) xs) \<le> 1"
proof (induction xs)
  case Nil
  then show ?case by simp
next
  case (Cons x xs)
  have "filter (\<lambda>z. f z = y) xs = []" if "f x = y"
  proof -
    have "f x \<notin> f ` set xs"
      using Cons.prems by simp
    then have "\<forall>z\<in>set xs. f z \<noteq> y"
      using that by (metis imageI)
    then show ?thesis
      by (simp add: filter_empty_conv)
  qed
  then show ?case
    using Cons by auto
qed

lemma merge_row_single:
  assumes "distinct (map (\<lambda>r. map_of r right_on) right)"
  shows "\<exists>extra. merge_row rcols right left_on right_on l = [suffix_overlap rcols ''_x'' l @ extra]"
proof -
  let ?ms = "filter (\<lambda>r. map_of r right_on = map_of l left_on) right"
  have "length ?ms \<le> 1"
    using assms by (rule filter_key_le1)
  then consider "?ms = []" | m where "?ms = [m]"
    by (cases ?ms) (auto simp add: le_Suc_eq)
  then show ?thesis
  proof cases
    case 1
    then show ?thesis by (simp add: merge_row_def)
  next
    case 2
    then show ?thesis by (simp add: merge_row_def)
  qed
qed

lemma concat_singletons:
  assumes "\<forall>x\<in>set xs. \<exists>y. f x = [y]"
  shows "length (concat (map f xs)) = length xs"
    and "i < length xs \<Longrightarrow> f (xs ! i) = [concat (map f xs) ! i]"
proof -
  have "concat (map f xs) = map (\<lambda>x. hd (f x)) xs"
    using assms by (induction xs) auto
  then show "length (concat (map f xs)) = length xs"
    and "i < length xs \<Longrightarrow> f (xs ! i) = [concat (map f xs) ! i]"
    using assms by (auto dest!: bspec [where x = "xs ! i"])
qed

lemma merge_left_rows:
  assumes "merge_left left rcols right left_on right_on = Inr t'"
    and "distinct (map (\<lambda>r. map_of r right_on) right)"
  shows "length t' = length left"
    and "i < length left \<Longrightarrow> \<exists>extra. t' ! i = suffix_overlap rcols ''_x'' (left ! i) @ extra"
proof -
  have t': "t' = concat (map (merge_row rcols right left_on right_on) left)"
    using assms(1) by (auto simp add: merge_left_def ebind_Inr)
  have s: "\<forall>l\<in>set left. \<exists>y. merge_row rcols right left_on right_on l = [y]"
    using merge_row_single [OF assms(2)] by blast
  show "length t' = length left"
    unfolding t' using s by (rule concat_singletons(1))
  show "\<exists>extra. t' ! i = suffix_overlap rcols ''_x'' (left ! i) @ extra" if "i < length left"
    using concat_singletons(2) [OF s that] merge_row_single [OF assms(2), of rcols left_on "left ! i"]
    unfolding t' by auto
qed

lemma aggregated_keys_distinct:
  assumes "groupby_agg key flds t = Inr g"
  shows "distinct (map (\<lambda>r. map_of r (prefix @ key)) (rename_prefix prefix g))"
proof -
  have "map (\<lambda>r. map_of r (prefix @ key)) (rename_prefix prefix g)
      = map Some (group_keys (map (cell_at key) t))"
    unfolding groupby_agg_Inr(1) [OF assms] rename_prefix_def
    by (simp add: map_of_prefixed agg_row_def comp_def)
  then show ?thesis
    by (simp add: distinct_map group_keys_distinct)
qed

lemma aggregate_npatlas_rows:
  assumes "aggregate_npatlas t npatlas column prefix = Inr t'"
  shows "length t' = length t"
    and "i < length t \<Longrightarrow>
      \<exists>extra. t' ! i
        = suffix_overlap (map (\<lambda>c. prefix @ c) (npatlas_key # npatlas_fields)) ''_x'' (t ! i) @ extra"
proof -
  from assms obtain g where g: "groupby_agg npatlas_key npatlas_fields npatlas = Inr g"
    and m: "merge_left t (map (\<lambda>c. prefix @ c) (npatlas_key # npatlas_fields))
      (rename_prefix prefix g) (column @ ''_no_stereo'') (prefix @ npatlas_key) = Inr t'"
    by (auto simp add: aggregate_npatlas_def npatlas2_def ebind_Inr)
  note d = aggregated_keys_distinct [OF g, of prefix]
  show "length t' = length t"
    using merge_left_rows(1) [OF m d] .
  show "i < length t \<Longrightarrow>
      \<exists>extra. t' ! i
        = suffix_overlap (map (\<lambda>c. prefix @ c) (npatlas_key # npatlas_fields)) ''_x'' (t ! i) @ extra"
    using merge_left_rows(2) [OF m d] .
qed

lemma aggregate_mibig_rows:
  assumes "aggregate_mibig t mibig column prefix = Inr t'"
  shows "length t' = length t"
    and "i < length t \<Longrightarrow>
      \<exists>extra. t' ! i
        = suffix_overlap (map (\<lambda>c. prefix @ c) (mibig_key # mibig_fields)) ''_x'' (t ! i) @ extra"
proof -
  from assms obtain g where g: "groupby_agg mibig_key mibig_fields mibig = Inr g"
    and m: "merge_left t (map (\<lambda>c. prefix @ c) (mibig_key # mibig_fields))
      (rename_prefix prefix g) (column @ ''_no_stereo'') (prefix @ mibig_key) = Inr t'"
    by (auto simp add: aggregate_mibig_def mibig2_def ebind_Inr)
  note d = aggregated_keys_distinct [OF g, of prefix]
  show "length t' = length t"
    using merge_left_rows(1) [OF m d] .
  show "i < length t \<Longrightarrow>
      \<exists>extra. t' ! i
        = suffix_overlap (map (\<lambda>c. prefix @ c) (mibig_key # mibig_fields)) ''_x'' (t ! i) @ extra"
    using merge_left_rows(2) [OF m d] .
qed

lemma prepare_features_length:
  "prepare_features t = Inr t' \<Longrightarrow> length t' = length t"
  by (auto simp add: prepare_features_def ebind_Inr dest!: prepare_inchikey_length)

lemma join_npatlas_length:
  "join_npatlas t npatlas = Inr t' \<Longrightarrow> length t' = length t"
  by (auto simp add: join_npatlas_def ebind_Inr dest!: aggregate_npatlas_rows(1))

lemma join_mibig_length:
  "join_mibig t mibig = Inr t' \<Longrightarrow> length t' = length t"
  by (auto simp add: join_mibig_def ebind_Inr dest!: aggregate_mibig_rows(1))

lemma evidence_join_length:
  "evidence_join features npatlas_read mibig_read = Inr t' \<Longrightarrow> length t' = length features"
  by (auto simp add: evidence_join_def ebind_Inr
      dest!: prepare_features_length join_npatlas_length join_mibig_length)

lemma propagate_all_length:
  "propagate_all t = Inr t' \<Longrightarrow> length t' = length t"
  by (auto simp add: propagate_all_def ebind_Inr dest!: propagate_length)

lemma drop_column_length:
  "drop_column c t = Inr t' \<Longrightarrow> length t' = length t"
  by (auto simp add: drop_column_def ebind_Inr)

lemma notebook_length:
  "notebook features npatlas_read mibig_read = Inr out \<Longrightarrow> length out = length features"
  by (auto simp add: notebook_def ebind_Inr
      dest!: evidence_join_length is_microbial_level_length is_microbial_tool_length
        propagate_all_length drop_column_length)

lemma example_joined_npatlas_run:
  "aggregate_npatlas example_keys example_npatlas gnps_lib ''GNPS_LIB_'' = Inr example_joined_npatlas"
  by code_simp

lemma example_joined_mibig_run:
  "aggregate_mibig example_keys example_mibig csi ''CSI_'' = Inr example_joined_mibig"
  by code_simp

text \<open>
  C6. A join against the aggregated NPAtlas or MIBIG table returns as many rows as the
  feature table has, the row at each position being the feature row (a column that the
  reference also has is renamed with \<^verbatim>\<open>_x\<close>) followed by new columns; so the table
  after the ten joins, and any table that a run of the notebook writes, have the number
  of rows of the feature table. The steps after the joins keep the rows as well, each on
  its own: the tier loop, every propagation, and the removal of the index column.
\<close>

theorem joins_keep_rows:
  "(aggregate_npatlas t npatlas column prefix = Inr t' \<longrightarrow>
      length t' = length t
      \<and> (\<forall>i<length t. \<exists>extra. t' ! i
            = suffix_overlap (map (\<lambda>c. prefix @ c) (npatlas_key # npatlas_fields)) ''_x'' (t ! i)
              @ extra))
   \<and> (aggregate_mibig u mibig column' prefix' = Inr u' \<longrightarrow>
      length u' = length u
      \<and> (\<forall>i<length u. \<exists>extra. u' ! i
            = suffix_overlap (map (\<lambda>c. prefix' @ c) (mibig_key # mibig_fields)) ''_x'' (u ! i)
              @ extra))
   \<and> (evidence_join features npatlas_read mibig_read = Inr merged \<longrightarrow>
      length merged = length features)
   \<and> (notebook features npatlas_read mibig_read = Inr out \<longrightarrow> length out = length features)
   \<and> (is_microbial_level v = Inr v' \<longrightarrow> length v' = length v)
   \<and> (propagate_microbial_annotation tier w = Inr w' \<longrightarrow> length w' = length w)
   \<and> (drop_column dropped x = Inr x' \<longrightarrow> length x' = length x)"
  using aggregate_npatlas_rows [of t npatlas column prefix t']
    aggregate_mibig_rows [of u mibig column' prefix' u']
    evidence_join_length [of features npatlas_read mibig_read merged]
    notebook_length [of features npatlas_read mibig_read out]
    is_microbial_level_length [of v v'] propagate_length [of tier w w']
    drop_column_length [of dropped x x']
  by blast

theorem joins_keep_rows_witness:
  "aggregate_npatlas example_keys example_npatlas gnps_lib ''GNPS_LIB_'' = Inr example_joined_npatlas
   \<and> length example_joined_npatlas = length example_keys
   \<and> aggregate_mibig example_keys example_mibig csi ''CSI_'' = Inr example_joined_mibig
   \<and> length example_joined_mibig = length example_keys
   \<and> evidence_join example_features example_npatlas_read example_mibig_read = Inr example_joined
   \<and> length example_joined = length example_features
   \<and> is_microbial_level [example_hit, example_none] = Inr example_levels
   \<and> length example_levels = length [example_hit, example_none]
   \<and> propagate_microbial_annotation ''is_microbial_level_3'' example_levels
       = Inr example_levels_network
   \<and> length example_levels_network = length example_levels
   \<and> (\<exists>written. drop_column ''Unnamed: 0'' example_features = Inr written
        \<and> length written = length example_features)"
proof -
  obtain written where w: "drop_column ''Unnamed: 0'' example_features = Inr written"
    by (simp add: drop_column_def column_of_def example_features_def getcol_def ebind_def)
  note j = joins_keep_rows
    [of example_keys example_npatlas gnps_lib "''GNPS_LIB_''" example_joined_npatlas
      example_keys example_mibig csi "''CSI_''" example_joined_mibig
      example_features example_npatlas_read example_mibig_read example_joined example_joined
      "[example_hit, example_none]" example_levels
      "''is_microbial_level_3''" example_levels example_levels_network
      "''Unnamed: 0''" example_features written]
  have l1: "length example_joined_npatlas = length example_keys"
    using j [THEN conjunct1, THEN mp, OF example_joined_npatlas_run] by (rule conjunct1)
  have l2: "length example_joined_mibig = length example_keys"
    using j [THEN conjunct2, THEN conjunct1, THEN mp, OF example_joined_mibig_run]
    by (rule conjunct1)
  note r = j [THEN conjunct2, THEN conjunct2]
  have l3: "length example_joined = length example_features"
    using r [THEN conjunct1, THEN mp, OF example_join_run] .
  note r' = r [THEN conjunct2, THEN conjunct2]
  have l5: "length example_levels = length [example_hit, example_none]"
    using r' [THEN conjunct1, THEN mp, OF example_levels_run] .
  have l6: "length example_levels_network = length example_levels"
    using r' [THEN conjunct2, THEN conjunct1, THEN mp, OF example_levels_network_run] .
  have l7: "length written = length example_features"
    using r' [THEN conjunct2, THEN conjunct2, THEN mp, OF w] .
  have "\<exists>written. drop_column ''Unnamed: 0'' example_features = Inr written
      \<and> length written = length example_features"
    using w l7 by (intro exI conjI)
  then show ?thesis
    by (simp only: example_joined_npatlas_run example_joined_mibig_run example_join_run
        example_levels_run example_levels_network_run l1 l2 l3 l5 l6 simp_thms)
qed

end
